theory Spec2Isabelle
  imports Main
begin

section \<open>JavaScript values\<close>

text \<open>
  The blog is a React application over two static tables: the catalog
  \<^verbatim>\<open>blogPosts\<close> (module @/data/blogPosts) and the content table
  \<^verbatim>\<open>blogContent\<close> (module @/data/blogContent). The component
  \<^verbatim>\<open>BlogPost\<close> joins them by the route parameter \<^verbatim>\<open>slug\<close>,
  the component \<^verbatim>\<open>BlogGrid\<close> splits the catalog into the featured
  card and the rest.

  A JavaScript string is modelled as a \<^typ>\<open>string\<close>: the text in UTF-8, one
  \<^typ>\<open>char\<close> per byte. Equality of two texts, emptiness and an ASCII prefix
  are the same in UTF-8 as in JavaScript's UTF-16 code units; no definition
  below counts the characters of a string.
\<close>

text \<open>
  What the expression \<^verbatim>\<open>blogContent[slug]\<close> can evaluate to: a text body
  stored in the object, a member inherited from \<^verbatim>\<open>Object.prototype\<close>
  (a function or an object, named by its key), or \<^verbatim>\<open>undefined\<close>.
\<close>

datatype js_value = Undefined | Str string | Inherited string

text \<open>
  JavaScript's ToBoolean on these values: \<^verbatim>\<open>undefined\<close> and the empty
  string are falsy, every object and function is truthy.
\<close>

fun truthy :: "js_value \<Rightarrow> bool" where
  "truthy Undefined = False"
| "truthy (Str s) = (s \<noteq> [])"
| "truthy (Inherited k) = True"

text \<open>
  An object written as a literal \<^verbatim>\<open>{ "k1": v1, "k2": v2, ... }\<close> with string
  values: its property definitions in source order. A later definition of a
  key replaces an earlier one. An entry written under the key
  \<^verbatim>\<open>__proto__\<close> defines no property: in a literal it sets the prototype,
  and with a string as its value it does nothing.
\<close>

type_synonym js_object = "(string \<times> string) list"

definition own_entries :: "js_object \<Rightarrow> (string \<times> string) list" where
  "own_entries obj = filter (\<lambda>(k, v). k \<noteq> ''__proto__'') obj"

definition own_property :: "js_object \<Rightarrow> string \<Rightarrow> string option" where
  "own_property obj k = map_of (rev (own_entries obj)) k"

definition own_keys :: "js_object \<Rightarrow> string set" where
  "own_keys obj = set (map fst (own_entries obj))"

text \<open>
  The property keys of \<^verbatim>\<open>Object.prototype\<close> in a standard ECMAScript
  realm (with the legacy accessors of Annex B). An object literal inherits
  them.
\<close>

definition Object_prototype_keys :: "string list" where
  "Object_prototype_keys =
    [''constructor'', ''hasOwnProperty'', ''isPrototypeOf'', ''propertyIsEnumerable'',
     ''toLocaleString'', ''toString'', ''valueOf'', ''__proto__'',
     ''__defineGetter__'', ''__defineSetter__'', ''__lookupGetter__'', ''__lookupSetter__'']"

text \<open>
  The read \<^verbatim>\<open>obj[k]\<close>: the own property when there is one, otherwise the
  lookup continues in \<^verbatim>\<open>Object.prototype\<close>, and ends in
  \<^verbatim>\<open>undefined\<close>.
\<close>

definition get_property :: "js_object \<Rightarrow> string \<Rightarrow> js_value" where
  "get_property obj k =
    (case own_property obj k of
       Some v \<Rightarrow> Str v
     | None \<Rightarrow> if k \<in> set Object_prototype_keys then Inherited k else Undefined)"

section \<open>The catalog: module @/data/blogPosts\<close>

text \<open>
  \<^verbatim>\<open>interface BlogPost { id; title; excerpt; category; image; url; featured? }\<close>.
  The fields \<^verbatim>\<open>id\<close> and \<^verbatim>\<open>image\<close> carry a prime, since
  \<^term>\<open>id\<close> and \<^term>\<open>image\<close> are constants of HOL. The optional
  \<^verbatim>\<open>featured\<close> is \<^term>\<open>None\<close> where the record leaves it out.
\<close>

record BlogPost =
  id' :: string
  title :: string
  excerpt :: string
  category :: string
  image' :: string
  url :: string
  featured :: "bool option"

text \<open>
  The cover images are imports of static assets; the bundler replaces each by
  an opaque URL. The model keeps the import specifier as the handle.
\<close>

definition cctpImg :: string where
  "cctpImg = ''@/assets/blog/cctp-rs.png''"

definition verifiableImg :: string where
  "verifiableImg = ''@/assets/blog/verifiable-extraction.png''"

definition homomorphicImg :: string where
  "homomorphicImg = ''@/assets/blog/homomorphic-signatures.png''"

definition queryPricingImg :: string where
  "queryPricingImg = ''@/assets/blog/automated-query-pricing.png''"

definition indexer2Img :: string where
  "indexer2Img = ''@/assets/blog/indexer-part-2.png''"

definition ammImg :: string where
  "ammImg = ''@/assets/blog/automatic-market-maker.png''"

definition psiImg :: string where
  "psiImg = ''@/assets/blog/psi-with-fhe.png''"

definition cryptoImg :: string where
  "cryptoImg = ''@/assets/blog/crypto-meta-analysis.png''"

definition indexer1Img :: string where
  "indexer1Img = ''@/assets/blog/indexer-part-1.png''"

definition sumCheckImg :: string where
  "sumCheckImg = ''@/assets/blog/sum-check.png''"

definition blogPosts :: "BlogPost list" where
  "blogPosts =
    [\<lparr>id' = ''cctp-rs'',
      title = ''Building cctp-rs: A Production-Grade Rust SDK for Cross-Chain USDC Transfers'',
      excerpt = ''How we built an open-source library that's moved millions in USDC across blockchains. At Semiotic, we often find ourselves building infrastructure that doesn't exist yet.'',
      category = ''Payments & Settlement'',
      image' = cctpImg,
      url = ''https://blog-semiotic.ghost.io/building-cctp-rs-a-production-grade-rust-sdk-for-cross-chain-usdc-transfers/'',
      featured = Some True\<rparr>,
     \<lparr>id' = ''verifiable-extraction'',
      title = ''Verifiable Extraction in The Graph'',
      excerpt = ''We discuss the methodology that Semiotic Labs uses to verify that blockchain data extracted from some source matches the history of the chain.'',
      category = ''Cryptography & Security'',
      image' = verifiableImg,
      url = ''https://blog-semiotic.ghost.io/verifiable-extraction-in-the-graph/'',
      featured = None\<rparr>,
     \<lparr>id' = ''homomorphic-signatures'',
      title = ''Homomorphic Signatures for Payment Channels'',
      excerpt = ''This post discusses design and optimization of verifiable micropayments over a state channel, a feature of Semiotic Labs' GraphTally library for The Graph.'',
      category = ''Cryptography & Security'',
      image' = homomorphicImg,
      url = ''https://blog-semiotic.ghost.io/homomorphic-signatures-for-payment-channels/'',
      featured = None\<rparr>,
     \<lparr>id' = ''automated-query-pricing'',
      title = ''Automated Query Pricing in The Graph'',
      excerpt = ''To help indexers with pricing in the relative resource cost of serving different query shapes, we are developing AutoAgora, an automation tool.'',
      category = ''AI & Optimization'',
      image' = queryPricingImg,
      url = ''https://blog-semiotic.ghost.io/automated-query-pricing-in-the-graph/'',
      featured = None\<rparr>,
     \<lparr>id' = ''indexer-allocation-2'',
      title = ''Indexer Allocation Optimization: Part II'',
      excerpt = ''How can we enable Indexers to input their preferences into the Allocation Optimizer and how do those preferences impact the optimization problem?'',
      category = ''Optimization'',
      image' = indexer2Img,
      url = ''https://blog-semiotic.ghost.io/indexer-allocation-optimization-part-ii/'',
      featured = None\<rparr>,
     \<lparr>id' = ''amm-overview'',
      title = ''An Overview of Automatic Market Maker Mechanisms'',
      excerpt = ''This article explores the principles and mechanisms behind the many popular AMM designs currently used in production, with graphical representations.'',
      category = ''DeFi'',
      image' = ammImg,
      url = ''https://blog-semiotic.ghost.io/an-overview-of-automatic-market-maker-mechanisms/'',
      featured = None\<rparr>,
     \<lparr>id' = ''psi-fhe'',
      title = ''PSI with FHE'',
      excerpt = ''Private Set Intersection is a cryptographic technique that allows two parties to identify shared information without leaking any other data.'',
      category = ''Cryptography & Security'',
      image' = psiImg,
      url = ''https://blog-semiotic.ghost.io/psi-with-fhe/'',
      featured = None\<rparr>,
     \<lparr>id' = ''crypto-meta-analysis'',
      title = ''2024 Crypto Meta-Analysis'',
      excerpt = ''We used ChatGPT to summarize crypto market outlooks from Messari, VanEck, Pantera Capital, Coinbase Institutional, a16z crypto, and Odos.'',
      category = ''Research'',
      image' = cryptoImg,
      url = ''https://blog-semiotic.ghost.io/2024-crypto-meta-analysis/'',
      featured = None\<rparr>,
     \<lparr>id' = ''indexer-allocation-1'',
      title = ''Indexer Allocation Optimization: Part I'',
      excerpt = ''How can indexers optimise their allocations so as to maximise the reward they receive? We formalise the problem and use convex optimization.'',
      category = ''Optimization'',
      image' = indexer1Img,
      url = ''https://blog-semiotic.ghost.io/indexer-allocation-optimization-part-i/'',
      featured = None\<rparr>,
     \<lparr>id' = ''sum-check'',
      title = ''Introduction to the Sum-Check Protocol'',
      excerpt = ''Verifiable computing lets us outsource computing away from the EVM. Various families of SNARKs use the sum-check protocol, a simple VC algorithm.'',
      category = ''Cryptography & Security'',
      image' = sumCheckImg,
      url = ''https://blog-semiotic.ghost.io/introduction-to-the-sum-check-protocol/'',
      featured = None\<rparr>]"

section \<open>The content table: module @/data/blogContent\<close>

text \<open>
  \<^verbatim>\<open>export const blogContent: Record<string, string> = { ... }\<close>: one
  template literal per post, here line by line with the escape
  \<^verbatim>\<open>\`\<close> of the source read as the backquote it denotes. Bytes outside
  ASCII are written \<open>CHR 0x..\<close>.
\<close>

definition content_cctp_rs :: string where
  "content_cctp_rs =
    ''_How we built an open-source library that's moved millions in USDC across blockchains by Joseph Livesey, Semiotic Engineering_\<newline>'' @
    ''\<newline>'' @
    ''---\<newline>'' @
    ''\<newline>'' @
    ''At Semiotic, we often find ourselves building infrastructure that doesn't exist yet. When we needed reliable cross-chain USDC transfers for our treasury management system, we discovered there was no production-ready Rust SDK for Circle's Cross-Chain Transfer Protocol (CCTP). So we built one.\<newline>'' @
    ''\<newline>'' @
    ''Today, we're excited to share [cctp-rs](https://github.com/semiotic-ai/cctp-rs), a type-safe, production-hardened Rust implementation of CCTP that powers millions of dollars in USDC transfers for our internal systems. With our v1.0.0 release, we're making this battle-tested infrastructure available to the broader Rust and crypto ecosystem.\<newline>'' @
    ''\<newline>'' @
    ''## The Problem: Bridging at Scale\<newline>'' @
    ''\<newline>'' @
    ''Our internal Likwid service manages router assets across 15+ blockchain networks. It autonomously monitors routers, liquidates accumulated tokens to USDC via DEX aggregators, and consolidates funds to a treasury on Base. This happens 24/7 without human intervention.\<newline>'' @
    ''\<newline>'' @
    ''The bridging piece was the missing link. We needed to:\<newline>'' @
    ''\<newline>'' @
    ''- Transfer USDC from Ethereum, Arbitrum, Optimism, Avalanche, and Polygon to Base\<newline>'' @
    ''- Handle the full CCTP lifecycle: burn '' @ [CHR 0xE2, CHR 0x86, CHR 0x92] @ '' attestation '' @ [CHR 0xE2, CHR 0x86, CHR 0x92] @ '' mint\<newline>'' @
    ''- Survive network failures, rate limits, and third-party relayer races\<newline>'' @
    ''- Maintain complete observability for debugging production issues\<newline>'' @
    ''- Support both CCTP v1 (legacy) and v2 (with sub-30-second settlements)\<newline>'' @
    ''\<newline>'' @
    ''Existing TypeScript SDKs weren't suitable for our Rust-native infrastructure. So we built cctp-rs from the ground up.\<newline>'' @
    ''\<newline>'' @
    ''## Design Philosophy: Type Safety as a Feature\<newline>'' @
    ''\<newline>'' @
    ''Rust's type system isn't just about memory safety'' @ [CHR 0xE2, CHR 0x80, CHR 0x94] @ ''it's a tool for encoding domain knowledge into your code. We leveraged this extensively:\<newline>'' @
    ''\<newline>'' @
    ''### Compile-Time Chain Validation\<newline>'' @
    ''\<newline>'' @
    ''```rust\<newline>'' @
    ''// Chain support is checked at compile time\<newline>'' @
    ''let domain_id = NamedChain::Arbitrum.cctp_domain_id()?;\<newline>'' @
    ''let fee_bps = NamedChain::Arbitrum.fast_transfer_fee_bps()?;\<newline>'' @
    ''\<newline>'' @
    ''// Unsupported chains fail gracefully with typed errors\<newline>'' @
    ''let err = NamedChain::Fantom.cctp_domain_id();\<newline>'' @
    ''assert!(matches!(err, Err(CctpError::UnsupportedChain(_))));\<newline>'' @
    ''```\<newline>'' @
    ''\<newline>'' @
    ''### Version-Specific APIs That Can't Be Misused\<newline>'' @
    ''\<newline>'' @
    ''CCTP v1 and v2 have fundamentally different attestation lookups. v1 queries by message hash; v2 queries by transaction hash. This is easy to confuse, and the wrong choice means failed mints.\<newline>'' @
    ''\<newline>'' @
    ''We solved this with separate types:\<newline>'' @
    ''\<newline>'' @
    ''```rust\<newline>'' @
    ''// V1: Query by message hash\<newline>'' @
    ''let attestation = Cctp::get_attestation(message_hash, ...).await?;\<newline>'' @
    ''\<newline>'' @
    ''// V2: Query by transaction hash, returns canonical message\<newline>'' @
    ''let (message, attestation) = CctpV2Bridge::get_attestation(tx_hash, ...).await?;\<newline>'' @
    ''```\<newline>'' @
    ''\<newline>'' @
    ''You literally cannot call the wrong method'' @ [CHR 0xE2, CHR 0x80, CHR 0x94] @ ''the compiler won't let you.\<newline>'' @
    ''\<newline>'' @
    ''### The V2 Nonce Foot-Gun\<newline>'' @
    ''\<newline>'' @
    ''Here's a subtle bug we caught: CCTP v2's `MessageSent` event emits a \"template\" message with zeros in the nonce field. Circle's attestation service fills in the actual nonce before signing. If you use the message from the logs for minting, it will fail.\<newline>'' @
    ''\<newline>'' @
    ''Our v2 API handles this automatically:\<newline>'' @
    ''\<newline>'' @
    ''```rust\<newline>'' @
    ''// get_attestation() always returns the canonical message from Circle's API\<newline>'' @
    ''let (canonical_message, attestation) = bridge.get_attestation(tx_hash, ...).await?;\<newline>'' @
    ''// Use canonical_message for minting'' @ [CHR 0xE2, CHR 0x80, CHR 0x94] @ ''it has the correct nonce\<newline>'' @
    ''```\<newline>'' @
    ''\<newline>'' @
    ''This design choice eliminated an entire class of production bugs.\<newline>'' @
    ''\<newline>'' @
    ''## Relayer-Aware Design for the Real World\<newline>'' @
    ''\<newline>'' @
    ''CCTP v2 is permissionless. Once Circle attests a message, _anyone_ can relay it. On mainnet, third-party relayers actively monitor burns and may complete your transfer before your application does.\<newline>'' @
    ''\<newline>'' @
    ''This isn't a bug; it's a feature of decentralized systems. But it means your code needs to handle races gracefully:\<newline>'' @
    ''\<newline>'' @
    ''```rust\<newline>'' @
    ''use cctp_rs::{CctpV2Bridge, MintResult};\<newline>'' @
    ''\<newline>'' @
    ''match bridge.mint_if_needed(message, attestation, from).await? {\<newline>'' @
    ''    MintResult::Minted(tx_hash) => {\<newline>'' @
    ''        log::info!(\"Minted via our relayer: {tx_hash}\");\<newline>'' @
    ''    }\<newline>'' @
    ''    MintResult::AlreadyRelayed => {\<newline>'' @
    ''        log::info!(\"Transfer completed by third-party relayer\");\<newline>'' @
    ''    }\<newline>'' @
    ''}\<newline>'' @
    ''```\<newline>'' @
    ''\<newline>'' @
    ''The `mint_if_needed()` method checks the on-chain nonce status before attempting a mint, preventing wasted gas and failed transactions.\<newline>'' @
    ''\<newline>'' @
    ''## Production Hardening: The Details That Matter\<newline>'' @
    ''\<newline>'' @
    ''### HTTP Timeouts and Retry Logic\<newline>'' @
    ''\<newline>'' @
    ''```rust\<newline>'' @
    ''let client = Client::builder()\<newline>'' @
    ''    .timeout(Duration::from_secs(30))\<newline>'' @
    ''    .build()?;\<newline>'' @
    ''```\<newline>'' @
    ''\<newline>'' @
    ''We poll Circle's Iris API with configurable retry logic:\<newline>'' @
    ''\<newline>'' @
    ''- Rate limit handling (429 '' @ [CHR 0xE2, CHR 0x86, CHR 0x92] @ '' sleep 5 minutes)\<newline>'' @
    ''- 404 responses treated as \"pending, retry\"\<newline>'' @
    ''- Configurable max attempts and poll intervals\<newline>'' @
    ''\<newline>'' @
    ''### Comprehensive Error Types\<newline>'' @
    ''\<newline>'' @
    ''```rust\<newline>'' @
    ''#[derive(Error, Debug)]\<newline>'' @
    ''pub enum CctpError {\<newline>'' @
    ''    UnsupportedChain(NamedChain),\<newline>'' @
    ''    AlreadyRelayed { original: String },\<newline>'' @
    ''    AttestationTimeout,\<newline>'' @
    ''    AttestationFailed { reason: String },\<newline>'' @
    ''}\<newline>'' @
    ''```\<newline>'' @
    ''\<newline>'' @
    ''No string-based errors. No panics. Every failure mode has a typed representation.\<newline>'' @
    ''\<newline>'' @
    ''## The Numbers\<newline>'' @
    ''\<newline>'' @
    ''- **26+ supported chains** across mainnet and testnet\<newline>'' @
    ''- **v2.0.0 stable** with semantic versioning\<newline>'' @
    ''- **Millions of USDC** bridged in production via Likwid\<newline>'' @
    ''\<newline>'' @
    ''## How Likwid Uses cctp-rs\<newline>'' @
    ''\<newline>'' @
    ''Our treasury consolidation flow:\<newline>'' @
    ''\<newline>'' @
    ''1. **Extraction**: Discover tokens accumulated in routers across 15+ chains\<newline>'' @
    ''2. **Liquidation**: Swap tokens to USDC via Odos aggregator when thresholds are met\<newline>'' @
    ''3. **Bridging**: Move USDC to Base via CCTP v2\<newline>'' @
    ''4. **State tracking**: PostgreSQL tracks the full lifecycle (burn '' @ [CHR 0xE2, CHR 0x86, CHR 0x92] @ '' attestation '' @ [CHR 0xE2, CHR 0x86, CHR 0x92] @ '' mint)\<newline>'' @
    ''\<newline>'' @
    ''## Get Started\<newline>'' @
    ''\<newline>'' @
    ''```toml\<newline>'' @
    ''[dependencies]\<newline>'' @
    ''cctp-rs = \"2.0.0\"\<newline>'' @
    ''```\<newline>'' @
    ''\<newline>'' @
    ''```rust\<newline>'' @
    ''use cctp_rs::{CctpV2Bridge, CctpError};\<newline>'' @
    ''use alloy_chains::NamedChain;\<newline>'' @
    ''\<newline>'' @
    ''let bridge = CctpV2Bridge::builder()\<newline>'' @
    ''    .source_chain(NamedChain::Mainnet)\<newline>'' @
    ''    .destination_chain(NamedChain::Base)\<newline>'' @
    ''    .source_provider(eth_provider)\<newline>'' @
    ''    .destination_provider(base_provider)\<newline>'' @
    ''    .recipient(recipient)\<newline>'' @
    ''    .build();\<newline>'' @
    ''\<newline>'' @
    ''let burn_tx = burn_usdc(&bridge, amount).await?;\<newline>'' @
    ''let (message, attestation) = bridge.get_attestation(burn_tx, None, None).await?;\<newline>'' @
    ''bridge.mint_if_needed(message, attestation, from).await?;\<newline>'' @
    ''```\<newline>'' @
    ''\<newline>'' @
    ''Check out the [examples](https://github.com/semiotic-ai/cctp-rs/tree/main/examples) for complete working code.\<newline>'' @
    ''\<newline>'' @
    ''## What's Next\<newline>'' @
    ''\<newline>'' @
    ''We're continuing to evolve cctp-rs as Circle expands CCTP support:\<newline>'' @
    ''\<newline>'' @
    ''- New chain additions as Circle announces them\<newline>'' @
    ''- Performance optimizations for high-frequency use cases\<newline>'' @
    ''- Enhanced hook support for programmable transfers\<newline>'' @
    ''\<newline>'' @
    ''The crate is Apache 2.0 licensed and we welcome contributions.\<newline>'' @
    ''\<newline>'' @
    ''---\<newline>'' @
    ''\<newline>'' @
    ''_cctp-rs is open source at [github.com/semiotic-ai/cctp-rs](https://github.com/semiotic-ai/cctp-rs). Documentation is available at [docs.rs/cctp-rs](https://docs.rs/cctp-rs)._\<newline>'' @
    ''\<newline>'' @
    ''_Semiotic AI builds financial infrastructure. Learn more at [semiotic.ai](https://www.semiotic.ai)._''"

definition content_verifiable_extraction :: string where
  "content_verifiable_extraction =
    ''The Graph is a decentralized protocol organizing blockchain data for easy access. Indexers maintain this organized data and provide a way for developers, dapps, and data analysts to query the data they need.\<newline>'' @
    ''\<newline>'' @
    ''In order to provide accurate results and avoid slashing, an Indexer should ensure that the data they are using to respond to queries is correct and reflects the recorded history of the protocol from which it was derived. Here we discuss _Verifiable Extraction_, the process of verifying that data pulled from a blockchain accurately reflects the chain's ledger.\<newline>'' @
    ''\<newline>'' @
    ''## Sources of Information\<newline>'' @
    ''\<newline>'' @
    ''An Indexer can retrieve, or _extract_, blocks from a chain for indexing and querying services by different means. These include direct access to an archive node, file sharing among Indexers, or pulling from a central repository of information.\<newline>'' @
    ''\<newline>'' @
    ''Below we will discuss what it means for blockchain data to be verifiable, how verification can be carried out, and how Semiotic's [veemon](https://github.com/semiotic-ai/veemon) project provides source code in Rust to verify Ethereum blocks.\<newline>'' @
    ''\<newline>'' @
    ''## Verifiable Data: Integrity and Authentication\<newline>'' @
    ''\<newline>'' @
    ''When Alice shares a file with Bob, how can Bob trust that the file has not been altered in transit, and that he has the same information that Alice has? Bob needs to verify the _integrity_ of the information. Alice makes a claim involving the file's contents and sends this claim to Bob along with the file. Bob can reconstruct the claim from the information he receives and verify that it matches the one Alice sent.\<newline>'' @
    ''\<newline>'' @
    ''A useful claim is easy to reconstruct and verify, and should only correspond to the message from which it was constructed. In the context of SNARKs, such a claim is called a _commitment_.\<newline>'' @
    ''\<newline>'' @
    ''### Example: Hash Functions\<newline>'' @
    ''\<newline>'' @
    ''A _cryptographic hash function_ is practical for verifying information integrity. This is a function with the following properties:\<newline>'' @
    ''\<newline>'' @
    ''- The output of the hash function (the _hash_) is a fixed size, regardless of the size of the input.\<newline>'' @
    ''- It is easy to compute the output, but difficult to find an input for a given output (one-way function).\<newline>'' @
    ''- Given an input-output pair, it is difficult to construct another input which gives the same output.\<newline>'' @
    ''\<newline>'' @
    ''A simple example of an integrity verification scheme which typically uses a hash function is a checksum.\<newline>'' @
    ''\<newline>'' @
    ''With this Alice and Bob example, we have illustrated two necessary components of verifiable data:\<newline>'' @
    ''\<newline>'' @
    ''1. **Integrity**: The data is correct.\<newline>'' @
    ''2. **Authentication**: The data came from a trusted source.\<newline>'' @
    ''\<newline>'' @
    ''## Integrity: Verifying the Contents of the Block\<newline>'' @
    ''\<newline>'' @
    ''An Indexer using information from a blockchain could extract that information by various means, including from a shared file, a data repository, or by direct RPC request.\<newline>'' @
    ''\<newline>'' @
    ''StreamingFast's Firehose enables the creation of binary flat files which can be easily shared and archived among Indexers. These flat files generalize execution blocks from multiple chains via Google Protocol Buffer (Protobuf) definitions.\<newline>'' @
    ''\<newline>'' @
    ''The benefits of using verifiable data'' @ [CHR 0xE2, CHR 0x80, CHR 0x94] @ ''such as Firehose flat files'' @ [CHR 0xE2, CHR 0x80, CHR 0x94] @ ''as a source for Indexers include:\<newline>'' @
    ''\<newline>'' @
    ''1. Indexers can share files without needing to trust each other\<newline>'' @
    ''2. An Indexer needs to ensure that the data it provides to an end user has integrity\<newline>'' @
    ''3. Historical blockchain data must be maintained for developers who require it\<newline>'' @
    ''\<newline>'' @
    ''The transactions root is calculated by constructing a Merkle tree, which uses a hash function to incorporate information from a group of transactions (the leaves) into a single hash output (the root). Any change in a recorded transaction will result in a change to the commitment.\<newline>'' @
    ''\<newline>'' @
    ''**1. The contents of the block should be associated with a commitment that can be verified.**\<newline>'' @
    ''\<newline>'' @
    ''## Authentication: Verifying the Source of the Block\<newline>'' @
    ''\<newline>'' @
    ''By verifying the contents of the block, an Indexer can ensure that a block is self-consistent. But what is to prevent Alice from changing or omitting a transaction in the original block, recalculating the transactions root and block hash based on this erroneous information?\<newline>'' @
    ''\<newline>'' @
    ''To address this issue, we need to verify that the block itself came from a trusted source. Our ultimate source of trust here is the blockchain ledger.\<newline>'' @
    ''\<newline>'' @
    ''**2. The block can be shown to match the blockchain's ledger.**\<newline>'' @
    ''\<newline>'' @
    ''### Proof of Inclusion in the Chain's History\<newline>'' @
    ''\<newline>'' @
    ''Similar to how there is a transactions root commitment to a group of transactions, we can construct a commitment to a group of block hashes. A group here is equal to 8,192 block hashes and is called an _era_. By calculating the root of a Merkle tree with these block hashes at the leaves, we create a commitment to this era.\<newline>'' @
    ''\<newline>'' @
    ''A verifier compares this root to a trusted record of roots for all eras in the Ethereum history. The Portal Network maintains a record of these era-based roots called a Header Accumulator.\<newline>'' @
    ''\<newline>'' @
    ''## veemon: Verifiable Extraction in Rust\<newline>'' @
    ''\<newline>'' @
    ''Semiotic Labs maintains source code in Rust to perform verifiable extraction of Ethereum blocks. The [veemon](https://github.com/semiotic-ai/veemon/) repository provides the capability to parse StreamingFast .dbin files containing Ethereum blocks, and to verify the content and history of pre-Merge and post-Merge blocks.\<newline>'' @
    ''\<newline>'' @
    ''As information from decentralized protocols is extracted by Graph Indexers and served to end users, it is important to ensure that the information is trustworthy. Indexers serving up blockchain records must be able to verify that the data is correct according to the consensus of the blockchain.''"

definition content_homomorphic_signatures :: string where
  "content_homomorphic_signatures =
    ''_This post was co-authored by Carollan Helinski, Severiano Sisneros, and Pedro Henrique Bufulin de Almeida at Semiotic Labs._\<newline>'' @
    ''\<newline>'' @
    ''## Introduction\<newline>'' @
    ''\<newline>'' @
    ''You're a coffee shop owner looking to minimize your costs of doing business. You notice that credit card transaction fees are inflating the price you charge to your customers. So you have an idea: rather than paying with credit card for each transaction, you let your customers pay with an IOU. At the end of the month you tally the customer's IOUs and ask the customer to pay the total amount using a single credit card transaction.\<newline>'' @
    ''\<newline>'' @
    ''But, what happens if you have a customer who runs up a large tally and then never comes back? It would be great if you could prove that all the IOUs came from the untrustworthy customer and also prove the value of the sum of all the IOUs.\<newline>'' @
    ''\<newline>'' @
    ''Cryptographers solved the first half of the problem in the early days of public-key cryptography by inventing digital signatures. In this post we're going to talk about how cryptographers solved the full problem using something called a **homomorphic signature scheme**.\<newline>'' @
    ''\<newline>'' @
    ''Essentially all \"homomorphic\" means is that if you have two values that are the output of some function and add them together, then the result is the same as first adding the two inputs together and then calculating the function on the sum.\<newline>'' @
    ''\<newline>'' @
    ''This solution is particularly interesting in blockchain applications, where transaction fees are particularly high. You can submit a single transaction which verifies the homomorphic signature and transfers the amount owed. This is way cheaper than having to submit and verify all the individual signatures and enables interesting protocols like micropayment channels.\<newline>'' @
    ''\<newline>'' @
    ''This post discusses design and optimization of verifiable micropayments over a state channel, a feature of Semiotic Labs' [GraphTally](https://github.com/semiotic-ai/timeline-aggregation-protocol) library for The Graph.\<newline>'' @
    ''\<newline>'' @
    ''## Micropayments Using State Channels\<newline>'' @
    ''\<newline>'' @
    ''An Ethereum-based state channel lets users conduct numerous transactions off-chain without the cost of executing each transaction on the EVM. In the case where transactions are payment transfers (a payment channel), the cost associated with fees can be greatly reduced, especially when the value of each payment is low (a so-called micropayment).\<newline>'' @
    ''\<newline>'' @
    ''Semiotic Labs' GraphTally provides a library for verifying ECDSA signatures on transactions in a payment channel. The receipt for each micropayment is signed, then verified by the TAP Aggregator. The Aggregator adds together the values of all payments and creates a new signed receipt reflecting the combined value.\<newline>'' @
    ''\<newline>'' @
    ''Instead of validating each signature individually, we look to homomorphic signature schemes (HSS), where the aggregated signature is a valid signature on the sum of messages. Semiotic Labs has developed a Rust implementation, [h2s2](https://github.com/semiotic-ai/h2s2), of the protocol.\<newline>'' @
    ''\<newline>'' @
    ''## Homomorphic Signatures for Cheap and Trustless Micropayments\<newline>'' @
    ''\<newline>'' @
    ''The network coding scheme NCS1 of Boneh et al. is an HSS consisting of four algorithms **Setup**, **Sign**, **Combine**, and **Verify**.\<newline>'' @
    ''\<newline>'' @
    ''### Cost of Verification\<newline>'' @
    ''\<newline>'' @
    ''If the values P, Q and R are initialized as part of the smart contract, then the verification of the combination requires:\<newline>'' @
    ''\<newline>'' @
    ''- A scalar multiplication in G1, which costs 40,000 gas\<newline>'' @
    ''- A pairing equality check, which costs 260,000 gas\<newline>'' @
    ''\<newline>'' @
    ''To avoid doing the hash computation on the EVM, the verification smart contract can be initialized with a precomputed value based on the expected number of receipts N.\<newline>'' @
    ''\<newline>'' @
    ''## Benchmarks\<newline>'' @
    ''\<newline>'' @
    ''The following benchmarks were conducted on an M2 MacBook Air using our Rust implementation [h2s2](https://github.com/semiotic-ai/h2s2):\<newline>'' @
    ''\<newline>'' @
    ''- **82'' @ [CHR 0xCE, CHR 0xBC] @ ''s** to sign a single message\<newline>'' @
    ''- **1.2ms** to verify a single message\<newline>'' @
    ''- **58'' @ [CHR 0xCE, CHR 0xBC] @ ''s** to combine 32 signatures\<newline>'' @
    ''- **1.1ms** to verify a batch of 32 signatures\<newline>'' @
    ''\<newline>'' @
    ''The most important thing we notice is that verifying an aggregate signature takes about the same time as verifying a single signature. For blockchain applications, this means we can batch verify any number of signatures and the on-chain costs will be independent of the number of signatures in the batch.\<newline>'' @
    ''\<newline>'' @
    ''## Conclusion\<newline>'' @
    ''\<newline>'' @
    ''By leveraging homomorphic signature schemes, we can significantly reduce the computational costs associated with verifying aggregated micropayments, while maintaining the security and integrity of off-chain transactions.''"

definition content_automated_query_pricing :: string where
  "content_automated_query_pricing =
    ''## TL;DR\<newline>'' @
    ''\<newline>'' @
    ''Indexers in The Graph have control over the pricing of the GraphQL queries they serve based on their shape. For this task, The Graph created a domain-specific language called Agora that maps query shapes to prices in GRT. However, manually populating and updating Agora models for each subgraph is a tedious task, and as a consequence, most indexers default to a static, flat pricing model.\<newline>'' @
    ''\<newline>'' @
    ''To help indexers with pricing in the relative resource cost of serving different query shapes, as well as following the query market price, we are developing **AutoAgora**, an automation tool that automatically creates and updates Agora models.\<newline>'' @
    ''\<newline>'' @
    ''## Query Relative Cost Discovery\<newline>'' @
    ''\<newline>'' @
    ''This work is based on a few trends that we have observed through analyzing the query traffic.\<newline>'' @
    ''\<newline>'' @
    ''### Observations on Received Queries\<newline>'' @
    ''\<newline>'' @
    ''One of the major problems of GraphQL is its ability to create very computationally expensive queries. In the worst cases, it is even possible to create exponentially hard queries while the query body itself grows only linearly. We can indeed observe this on queries against the Uniswap V2 subgraph, where query execution times span 4 orders of magnitude.\<newline>'' @
    ''\<newline>'' @
    ''Simultaneously, we observed that a vast majority of the queries are based on a small number of query shapes. This is to be expected as most queries are generated programmatically from web frontends.\<newline>'' @
    ''\<newline>'' @
    ''Based on the observations above, a reasonable solution for relative query pricing is to estimate the relative cost of the most frequent queries for each subgraph.\<newline>'' @
    ''\<newline>'' @
    ''### AutoAgora Logging and Relative Costing Infrastructure\<newline>'' @
    ''\<newline>'' @
    ''All monetized queries coming from the Gateway pass through the `indexer-service`. We modified it to output detailed query logs (subgraph hash, query, variables, GRT fees paid, execution time). These logs are then processed to normalize the queries, separate all query values from the query shapes.\<newline>'' @
    ''\<newline>'' @
    ''Relative pricing is generated periodically from the logs database. For each subgraph, query shapes that have seen more than a threshold number of queries are selected to be included in the Agora model. For each shape, the average query execution time is computed and used as the query shape cost factor in the pricing model.\<newline>'' @
    ''\<newline>'' @
    ''## Query Market Price Discovery\<newline>'' @
    ''\<newline>'' @
    ''### The Query Market\<newline>'' @
    ''\<newline>'' @
    ''In The Graph, each subgraph on each gateway defines a query market, on which end-consumers compete to buy queries and indexers compete to serve queries based on their Agora-defined prices and quality of service.\<newline>'' @
    ''\<newline>'' @
    ''The objective of the AutoAgora price discovery is to find the `$GLOBAL_COST_MULTIPLIER` that optimizes the revenue rate, as well as continuously adjust it to track markets fluctuations.\<newline>'' @
    ''\<newline>'' @
    ''### AutoAgora Absolute Price Discovery\<newline>'' @
    ''\<newline>'' @
    ''To find and continuously track the optimal price point requires continuously probing the market \"black box\" at various price points. The balance between exploration and exploitation is a reinforcement learning problem studied through the multi-armed bandit problem.\<newline>'' @
    ''\<newline>'' @
    ''We are mapping the price discovery problem as a continuum-armed bandit problem. The policy is modeled as a Gaussian probability distribution over cost multiplier values.\<newline>'' @
    ''\<newline>'' @
    ''We tested the AutoAgora price discovery on our own indexer (`semiotic-indexer.eth`) on mainnet with great success.\<newline>'' @
    ''\<newline>'' @
    ''## Limitations and Conclusions\<newline>'' @
    ''\<newline>'' @
    ''Our goal with AutoAgora is to help build sustainable, efficient query markets on The Graph, while also lowering the human operation costs.\<newline>'' @
    ''\<newline>'' @
    ''Current shortcomings include:\<newline>'' @
    ''- The relative cost models based only on average query shape execution time are too simplistic\<newline>'' @
    ''- The initial convergence speed of the market price bandit model is quite slow\<newline>'' @
    ''- The price bandit training is unstable on subgraphs with low query volumes\<newline>'' @
    ''\<newline>'' @
    ''The AutoAgora components are open source under the Apache-2 license.''"

definition content_indexer_allocation_2 :: string where
  "content_indexer_allocation_2 =
    ''_This article was co-authored by Anirudh Patel, Howard Heaton from Edge & Node, and with Hope Yen from GraphOps._\<newline>'' @
    ''\<newline>'' @
    ''## TL;DR\<newline>'' @
    ''\<newline>'' @
    ''Analytically optimizing to maximize indexing rewards may seem like a straightforward solution, but it oversimplifies the complexities involved in an Indexer's decision-making process. In this post, we'll discuss how we enable Indexers to input their preferences into the [Allocation Optimizer](https://github.com/graphprotocol/allocation-optimizer) and how those preferences can impact the Allocation Optimization problem. We'll also explore how we incorporate a gas fee to make the optimization problem more realistic, which results in a non-convex problem.\<newline>'' @
    ''\<newline>'' @
    ''## Optimizing Over Gas\<newline>'' @
    ''\<newline>'' @
    ''Gas costs have long been a challenging issue for those seeking to solve web3 optimization problems. We aim to find the set of optimal sparse vectors and then select the specific sparse vector that yields the highest profit. We define profit as the total indexing reward minus the total gas cost.\<newline>'' @
    ''\<newline>'' @
    ''### The Math At A Glance\<newline>'' @
    ''\<newline>'' @
    ''We use gradient descent, projected gradient descent, the simplex projection, GSSP (Greedy Selector and Simplex Projector), and Halpern iteration to solve this optimization problem.\<newline>'' @
    ''\<newline>'' @
    ''The key insight is that adding gas fees makes the originally convex objective function non-convex. This is because we've added a term depending on a binary variable that has value 1 if an allocation is nonzero and 0 otherwise.\<newline>'' @
    ''\<newline>'' @
    ''For non-convex functions, gradient descent can get stuck at local minima rather than finding the global minimum.\<newline>'' @
    ''\<newline>'' @
    ''### Solution Approach\<newline>'' @
    ''\<newline>'' @
    ''We solve the problem with a sparsity constraint for each value k from 1 to the number of subgraphs, giving us the optimal allocation strategy for k allocations. Then, we choose the best of these by picking the one that maximizes profit after accounting for gas costs.\<newline>'' @
    ''\<newline>'' @
    ''When you run the Allocation Optimizer with `opt_mode = \"fast\"`, this is exactly what the code does!\<newline>'' @
    ''\<newline>'' @
    ''### Results\<newline>'' @
    ''\<newline>'' @
    ''| | 100 GRT | 1000 GRT | 10000 GRT |\<newline>'' @
    ''|---|---|---|---|\<newline>'' @
    ''| Current Profit | 191,525.88 | 183,425.88 | 102,425.88 |\<newline>'' @
    ''| Optimized Profit | 540,841.27 | 469,017.12 | 333,127.37 |\<newline>'' @
    ''| % Increase | 282% | 255% | 325% |\<newline>'' @
    ''\<newline>'' @
    ''As expected, higher gas costs result in fewer allocations.\<newline>'' @
    ''\<newline>'' @
    ''## Indexer Preferences\<newline>'' @
    ''\<newline>'' @
    ''### Filtering Subgraphs\<newline>'' @
    ''\<newline>'' @
    ''Indexers can specify:\<newline>'' @
    ''- **Blacklist**: Subgraphs to exclude from optimization\<newline>'' @
    ''- **Whitelist**: Only allocate to these subgraphs\<newline>'' @
    ''- **Frozenlist**: Keep existing allocations fixed\<newline>'' @
    ''- **Pinnedlist**: Ensure minimum allocation on specific subgraphs\<newline>'' @
    ''- **min_signal**: Filter out subgraphs with signal below a threshold\<newline>'' @
    ''\<newline>'' @
    ''### Other Preferences\<newline>'' @
    ''\<newline>'' @
    ''- **allocation_lifetime**: Determines the time frame for token issuance\<newline>'' @
    ''- **max_allocations**: Limits the number of subgraphs to allocate to\<newline>'' @
    ''\<newline>'' @
    ''## Conclusion\<newline>'' @
    ''\<newline>'' @
    ''In Part II, we've demonstrated how the Allocation Optimizer accounts for Indexer preferences and how the fast mode solves the non-convex optimization problem using GSSP and Halpern iteration. However, we did not demonstrate optimality'' @ [CHR 0xE2, CHR 0x80, CHR 0x94] @ ''the Allocation Optimizer also has an optimal flag that we'll cover in our next blog post.\<newline>'' @
    ''\<newline>'' @
    ''Check out our Julia package [SemioticOpt](https://github.com/semiotic-ai/SemioticOpt.jl) for the optimization techniques described here.''"

definition content_amm_overview :: string where
  "content_amm_overview =
    ''## TL;DR\<newline>'' @
    ''\<newline>'' @
    ''This article explores the principles and mechanisms behind the many popular Automatic Market Maker designs currently used in production. While the mathematical details of these designs are fascinating in their own right, this article seeks to focus on graphical representations and high-level concepts, allowing for a more approachable and exhaustive exploration of the space.\<newline>'' @
    ''\<newline>'' @
    ''## Introduction\<newline>'' @
    ''\<newline>'' @
    ''Historically, order books run by professional market makers have been the dominant method used to facilitate exchange. On-chain, maintaining an order book is prohibitively expensive, since storage and computation on distributed ledgers are in short supply and high demand. For this reason, **Automatic Market Makers (AMM)** have emerged as an efficient class of methods to facilitate the exchange of crypto assets.\<newline>'' @
    ''\<newline>'' @
    ''An AMM leverages smart contracts to allow permissionless participation in market-making. These individuals passively provide liquidity to the contract, which can then use a predetermined function to automatically facilitate exchanges between buyers and sellers.\<newline>'' @
    ''\<newline>'' @
    ''## Basic Automatic Market Makers\<newline>'' @
    ''\<newline>'' @
    ''The first and most well-known AMM is the **Constant Product Market Maker (CPMM)**, first released by Bancor and further popularized by Uniswap. The CPMM spreads liquidity out equally between all prices, making it an extremely general solution but also very capital inefficient.\<newline>'' @
    ''\<newline>'' @
    ''The **Constant Mean Market Maker (CMMM)**, introduced by Balancer Protocol, generalizes the CPMM by allowing the liquidity provider to specify desired portfolio weights, such as a 20%-80% split.\<newline>'' @
    ''\<newline>'' @
    ''The extreme case is a **Constant Sum Market Maker (CSMM)**, which facilitates exchange at a fixed rate regardless of the current portfolio. This allows for perfect capital efficiency at the selected exchange rate, but quickly leads to losing all of the more valuable assets the moment the price deviates.\<newline>'' @
    ''\<newline>'' @
    ''## Hybrid Automatic Market Makers\<newline>'' @
    ''\<newline>'' @
    ''**Curve's StableSwap** interpolates between CPMM and CSMM behavior, maintaining close to a 1:1 exchange rate for pegged assets while never running out of either asset.\<newline>'' @
    ''\<newline>'' @
    ''**Solidly** builds on Uniswap V2 by adding a quartic sum invariant for stable assets, producing a similar effect to StableSwap.\<newline>'' @
    ''\<newline>'' @
    ''**Dodo's PMM** (Proactive Market Maker) flattens the price curve around an oracle price with a slippage parameter k that interpolates between constant product (k=1) and constant sum (k=0).\<newline>'' @
    ''\<newline>'' @
    ''**Clipper** interpolates between constant sum and constant product more explicitly, parameterized by a slippage parameter k.\<newline>'' @
    ''\<newline>'' @
    ''**Curve's CryptoSwap** expands on StableSwap for volatile assets with additional parameters, dynamic fees, and an internal oracle system.\<newline>'' @
    ''\<newline>'' @
    ''## Virtual Reserve Automatic Market Makers\<newline>'' @
    ''\<newline>'' @
    ''**KyberSwap** introduced virtual reserves, multiplying real balances by an amplification factor. This provides much higher capital efficiency but means the market maker can potentially run out of one asset.\<newline>'' @
    ''\<newline>'' @
    ''**Uniswap V3** allows each liquidity provider to pick their own price range, incentivizing precise price range selection with higher yields.\<newline>'' @
    ''\<newline>'' @
    ''## Request For Quote Systems\<newline>'' @
    ''\<newline>'' @
    ''RFQ mechanisms allow for private off-chain pricing with on-chain settlement, bridging DeFi and traditional finance.\<newline>'' @
    ''\<newline>'' @
    ''## Conclusions\<newline>'' @
    ''\<newline>'' @
    ''While this list covers many major DEXs, there remain several significant AMMs not covered. With the enormous variation in AMM models, **DEX aggregators** have become essential. [Odos.xyz](https://odos.xyz/) is a DEX aggregator that searches more complex solutions than existing platforms, allowing for atomic multi-input trades and better rates.''"

definition content_psi_fhe :: string where
  "content_psi_fhe =
    ''_This work was done by Gokay Saldamli and Lisandro (Lichu) Acu'' @ [CHR 0xC3, CHR 0xB1] @ ''a at Semiotic Labs. Special thanks to Jonathan Passerat-Palmbach and the broader Flashbots team for their collaboration._\<newline>'' @
    ''\<newline>'' @
    ''## Private Set Intersection with Fully Homomorphic Encryption\<newline>'' @
    ''\<newline>'' @
    ''**Private Set Intersection (PSI)** is a cryptographic technique that enables two parties to identify common elements in their sets without leaking any information about the rest of the elements. This can be used in secure contact tracing during epidemics or in privacy-preserving human genome testing.\<newline>'' @
    ''\<newline>'' @
    ''Over the last year, Semiotic Labs has been studying PSI applications to blockchain infrastructure problems, particularly in the context of Maximal Extractable Value (MEV). Through discussions with the Flashbots team, we concluded that an efficient PSI protocol could add a lot of value to the field.\<newline>'' @
    ''\<newline>'' @
    ''### The Math\<newline>'' @
    ''\<newline>'' @
    ''The protocol uses **Fully Homomorphic Encryption (FHE)** to eliminate reliance on an external server. FHE enables computing directly on encrypted data, preserving data privacy throughout processing.\<newline>'' @
    ''\<newline>'' @
    ''Our solution is based on Chang et al.'s \"Fast Private Set Intersection from Homomorphic Encryption\":\<newline>'' @
    ''\<newline>'' @
    ''0. **Context**: Alice has a set A and Bob has a set B\<newline>'' @
    ''1. **Setup**: Alice generates a public-secret key pair, sends public key to Bob\<newline>'' @
    ''2. **Set encryption**: Alice encrypts each element and sends ciphertexts to Bob\<newline>'' @
    ''3. **Computing intersection**: For each ciphertext, Bob homomorphically computes a product that will be zero only if the element is in the intersection\<newline>'' @
    ''4. **Reply extraction**: Alice decrypts the results'' @ [CHR 0xE2, CHR 0x80, CHR 0x94] @ ''zeros indicate shared elements\<newline>'' @
    ''\<newline>'' @
    ''We added an optimization that keeps the circuit depth fixed regardless of set sizes by splitting Bob's set into subsets, allowing PSI on sets of any size.\<newline>'' @
    ''\<newline>'' @
    ''### The Code\<newline>'' @
    ''\<newline>'' @
    ''We implemented the protocol using node-seal, a wrapper of Microsoft SEAL. The code is available at our [public GitHub repository](https://github.com/LichuAcu/psi-demo).\<newline>'' @
    ''\<newline>'' @
    ''### Benchmarks\<newline>'' @
    ''\<newline>'' @
    ''| Alice's set | Bob's set | Running time |\<newline>'' @
    ''|---|---|---|\<newline>'' @
    ''| 100 | 50 | 1,919ms |\<newline>'' @
    ''| 100 | 100 | 3,811ms |\<newline>'' @
    ''| 100 | 200 | 7,646ms |\<newline>'' @
    ''| 100 | 400 | 15,286ms |\<newline>'' @
    ''| 100 | 800 | 30,496ms |\<newline>'' @
    ''\<newline>'' @
    ''Runtime grows linearly with Bob's set size, and the separate intersections can be run in parallel.\<newline>'' @
    ''\<newline>'' @
    ''### Use Cases\<newline>'' @
    ''\<newline>'' @
    ''- Private access list comparison (EIP-2930)\<newline>'' @
    ''- Private auctions among MEV extractors\<newline>'' @
    ''- Private block construction\<newline>'' @
    ''- Note discovery in Aztec Protocol\<newline>'' @
    ''\<newline>'' @
    ''### Limitations\<newline>'' @
    ''\<newline>'' @
    ''The main limitation is that this protocol is designed for only two entities. Extending to n parties would require O(n'' @ [CHR 0xC2, CHR 0xB2] @ '') executions.''"

definition content_crypto_meta_analysis :: string where
  "content_crypto_meta_analysis =
    ''## Introduction\<newline>'' @
    ''\<newline>'' @
    ''Many groups have released 2024 crypto market outlooks this year. We used ChatGPT to summarize those from Messari, VanEck, Pantera Capital, Coinbase Institutional, and a16z crypto. We also include outlooks from Odos, a leading DeFi aggregator spun out of Semiotic.\<newline>'' @
    ''\<newline>'' @
    ''## Common Themes\<newline>'' @
    ''\<newline>'' @
    ''The most common themes are Bitcoin, DeFi, Gaming, DeSoc, AI, DePIN, improving user experience, and tokenizing real-world assets (RWAs).\<newline>'' @
    ''\<newline>'' @
    ''### Bitcoin\<newline>'' @
    ''\<newline>'' @
    ''Across the reports, there is a uniform view that Bitcoin's dominance is expected to persist, driven by growing institutional interest and validation as a unique digital store of value. The upcoming halving event is highlighted as a potential catalyst for appreciation. There is excitement around a Bitcoin ETF.\<newline>'' @
    ''\<newline>'' @
    ''### DeFi\<newline>'' @
    ''\<newline>'' @
    ''DeFi represents just under 0.01% of the $510 trillion value of global financial assets, indicating significant room for expansion. Key trends include:\<newline>'' @
    ''\<newline>'' @
    ''- **RWA Diversification**: Real World Assets on public blockchains expected to be driven by DeFi natives\<newline>'' @
    ''- **Bitcoin Layer 2**: Led by Stacks, providing better access to Bitcoin liquidity\<newline>'' @
    ''- **L2s Capturing DeFi**: Significant adoption of L2 ecosystems with cheaper gas fees\<newline>'' @
    ''- **Rise of On-Chain Order Books**: An exciting \"L2 native\" evolution of DeFi\<newline>'' @
    ''\<newline>'' @
    ''### Gaming\<newline>'' @
    ''\<newline>'' @
    ''Approximately 3.44 billion gamers globally contribute to an expected $184 billion in revenue. Gen Z and Gen Alpha are particularly engaged, spending around 15 hours a week gaming. Blockchain gaming is predicted to see a title surpassing 1 million daily active users.\<newline>'' @
    ''\<newline>'' @
    ''### AI\<newline>'' @
    ''\<newline>'' @
    ''The convergence of AI and crypto is seen as expanding the design horizons of crypto, with three key synergies:\<newline>'' @
    ''- AI agents utilizing crypto infrastructure\<newline>'' @
    ''- zkML innovations for smart contracts querying AI models\<newline>'' @
    ''- Tokenization for rewarding contributions to AI models\<newline>'' @
    ''\<newline>'' @
    ''### DePIN\<newline>'' @
    ''\<newline>'' @
    ''DePIN encompasses storage, computing, wireless connectivity, energy networks, and geospatial data collection. The cloud storage market is valued at $80 billion, yet decentralized alternatives cater to less than 0.1% despite offering costs 70% lower.\<newline>'' @
    ''\<newline>'' @
    ''Notable projects include Filecoin, Storj, Arweave, Hivemapper, and Helium.\<newline>'' @
    ''\<newline>'' @
    ''### User Experience\<newline>'' @
    ''\<newline>'' @
    ''Account abstraction (ERC-4337) is simplifying crypto interactions. The upcoming Dencun upgrade is expected to reduce rollup transaction fees by 2-10x. Intents are emerging as a new paradigm for defining blockchain actions.\<newline>'' @
    ''\<newline>'' @
    ''### NFTs\<newline>'' @
    ''\<newline>'' @
    ''NFTs are integrating into mainstream brand strategies. Bitcoin-based NFTs through Ordinals are growing. Starbucks, Nike, and Reddit have all launched digital collectible programs.\<newline>'' @
    ''\<newline>'' @
    ''### DeSoc\<newline>'' @
    ''\<newline>'' @
    ''Decentralized social platforms like Farcaster and Lens are making strides. Key factors include portable social graphs, anti-censorship, control over algorithms, and creator monetization.\<newline>'' @
    ''\<newline>'' @
    ''### Tokenizing Real-World Assets\<newline>'' @
    ''\<newline>'' @
    ''MakerDAO's reserves have shifted towards tokenized treasuries, growing from $40M to nearly $3B. Centrifuge leads the RWA space with $250M in active loans.\<newline>'' @
    ''\<newline>'' @
    ''## Selected Perspectives\<newline>'' @
    ''\<newline>'' @
    ''### Messari\<newline>'' @
    ''Strong long-term case for Bitcoin as a hedge against fiscal irresponsibility. Products to watch: USDT on Tron, BASE from Coinbase, Celestia, Firedancer, Farcaster, Lido, CCIP.\<newline>'' @
    ''\<newline>'' @
    ''### VanEck\<newline>'' @
    ''Anticipates U.S. recession in H1 2024. KYC-enabled DeFi apps expected to gain traction. Solana predicted to outperform in market cap and active users.\<newline>'' @
    ''\<newline>'' @
    ''### Pantera Capital\<newline>'' @
    ''Emphasizes the 1-Year HODL Wave metric. Suggests significant gains may still be ahead based on historical patterns.\<newline>'' @
    ''\<newline>'' @
    ''### Coinbase Institutional\<newline>'' @
    ''Layer-2 solutions growing rapidly. 59% of institutional investors expect allocations to increase. Complex regulatory landscape for stablecoins.\<newline>'' @
    ''\<newline>'' @
    ''### a16z crypto\<newline>'' @
    ''Decentralization matters for credibly neutral, open infrastructure. Open-source modular tech stacks unlock permissionless innovation. SNARKs are becoming mainstream for verification.\<newline>'' @
    ''\<newline>'' @
    ''---\<newline>'' @
    ''\<newline>'' @
    ''_Disclaimer: This document is for informational purposes only and does not constitute financial, legal, or investment advice._''"

definition content_indexer_allocation_1 :: string where
  "content_indexer_allocation_1 =
    ''_This article was co-authored by Anirudh Patel, Howard Heaton from Edge & Node, and with Hope Yen from GraphOps._\<newline>'' @
    ''\<newline>'' @
    ''### TL;DR\<newline>'' @
    ''\<newline>'' @
    ''Indexers within The Graph Protocol are rewarded via an indexing reward. How can indexers optimise their allocations so as to maximise the reward they receive? In this blog post we formalise the problem in terms of a reward function and use convex optimization to find a solution.\<newline>'' @
    ''\<newline>'' @
    ''### Overview\<newline>'' @
    ''\<newline>'' @
    ''The Graph's goal is to decentralize the API and query layer of web3, enabling users to query blockchain data without a centralized service provider. \"Indexers\" serve queries to consumers. In this blog post, we focus on the problem of how an indexer should choose which data to index, and thereby, which data to serve.\<newline>'' @
    ''\<newline>'' @
    ''### The Indexer Allocation Problem\<newline>'' @
    ''\<newline>'' @
    ''Subgraphs are collections of data extracted from blockchain transactions. Indexers must be selective with which subgraphs they index. The more a subgraph is queried, the more Indexers want to be indexing it.\<newline>'' @
    ''\<newline>'' @
    ''We rely on **curation**: the outputs of the curation process are subgraph signals, which should be roughly proportional to the volume of queries. The higher the signal on a subgraph, the higher we expect the query volume.\<newline>'' @
    ''\<newline>'' @
    ''## The Indexing Reward Function\<newline>'' @
    ''\<newline>'' @
    ''An Indexer i has some stake '' @ [CHR 0xCF, CHR 0x83, CHR 0xE1, CHR 0xB5, CHR 0xA2] @ ''. Each subgraph j has some signal '' @ [CHR 0xCF, CHR 0x88, CHR 0xE2, CHR 0xB1, CHR 0xBC] @ '' on it. An Indexer's allocation to subgraph j is defined as '' @ [CHR 0xCE, CHR 0xA9, CHR 0xE1, CHR 0xB5, CHR 0xA2, CHR 0xE2, CHR 0xB1, CHR 0xBC] @ ''. The indexing reward considers both the proportion of signal and the proportion of total allocation on each subgraph.\<newline>'' @
    ''\<newline>'' @
    ''## Intuition\<newline>'' @
    ''\<newline>'' @
    ''- The amount we should allocate to a subgraph is roughly a linear function of the signal on that subgraph\<newline>'' @
    ''- We want to place just enough stake to capture the maximum reward on each subgraph\<newline>'' @
    ''- When the marginal reward for increasing stake on one subgraph is less than another, we should switch\<newline>'' @
    ''\<newline>'' @
    ''## Optimizing The Indexing Reward\<newline>'' @
    ''\<newline>'' @
    ''We want to maximize the indexing reward subject to constraints that allocations must sum to our total stake and can't be negative. Since the indexing reward is a concave function of allocations, we can use convex optimization!\<newline>'' @
    ''\<newline>'' @
    ''We use the Karush-Kuhn-Tucker conditions to find an analytic solution.\<newline>'' @
    ''\<newline>'' @
    ''### Results\<newline>'' @
    ''\<newline>'' @
    ''Running our optimizer for an existing Indexer, we see an improvement in indexing rewards from **208,608.87 GRT to 240,739.72 GRT**. That's an improvement of **15%!**\<newline>'' @
    ''\<newline>'' @
    ''The optimal allocation allocates to way more subgraphs: the Indexer currently allocates to 70, while the optimal tool allocates to 144.\<newline>'' @
    ''\<newline>'' @
    ''### Conclusion\<newline>'' @
    ''\<newline>'' @
    ''The above problem formulation focuses on a simplified version. We haven't yet considered gas costs or resource constraints. These will turn our convex problem into a non-convex problem. The [next post](https://blog-semiotic.ghost.io/indexer-allocation-optimization-part-ii/) discusses how we can optimize this non-convex problem.''"

definition content_sum_check :: string where
  "content_sum_check =
    ''### TL;DR\<newline>'' @
    ''\<newline>'' @
    ''It is expensive to run transactions on the Ethereum EVM. Verifiable computing (VC) lets us outsource computing away from the EVM. Today, a popular and exciting form of VC algorithm is the SNARK. Various families of SNARKs use the **sum-check protocol**, which is a simple algorithm to introduce VC. This is a tutorial on the sum-check protocol.\<newline>'' @
    ''\<newline>'' @
    ''You can skip straight to the finished code [here](https://github.com/0xsamgreen/sumcheck).\<newline>'' @
    ''\<newline>'' @
    ''### Background\<newline>'' @
    ''\<newline>'' @
    ''Executing code on Ethereum is expensive. Verifiable computing algorithms promise a way to reduce costs, by outsourcing computing to untrusted parties and only verifying the result on-chain. The sum-check protocol is a foundational building block of more sophisticated SNARK algorithms.\<newline>'' @
    ''\<newline>'' @
    ''The sum-check protocol is used to outsource the computation of a sum of a function g evaluated at all Boolean inputs. It allows a Prover P to convince a Verifier V that P computed the sum correctly.\<newline>'' @
    ''\<newline>'' @
    ''### The Sum-Check Protocol\<newline>'' @
    ''\<newline>'' @
    ''The protocol steps are:\<newline>'' @
    ''\<newline>'' @
    ''1. **Prover P calculates the total sum** of g evaluated at all Boolean inputs\<newline>'' @
    ''2. **P computes a partial sum**, leaving the first variable x'' @ [CHR 0xE2, CHR 0x82, CHR 0x81] @ '' free\<newline>'' @
    ''3. **Verifier V checks** that the partial sum and total sum agree when evaluated at 0 and 1\<newline>'' @
    ''4. **V picks a random number r'' @ [CHR 0xE2, CHR 0x82, CHR 0x81] @ ''** and sends it to P\<newline>'' @
    ''5. **P replaces the free variable** with r'' @ [CHR 0xE2, CHR 0x82, CHR 0x81] @ '' and computes a partial sum leaving x'' @ [CHR 0xE2, CHR 0x82, CHR 0x82] @ '' free\<newline>'' @
    ''6. **Repeat steps 3-5** for all remaining variables\<newline>'' @
    ''7. **V evaluates g at one input** using an oracle: g(r'' @ [CHR 0xE2, CHR 0x82, CHR 0x81] @ '', r'' @ [CHR 0xE2, CHR 0x82, CHR 0x82] @ '', ..., r'' @ [CHR 0xE1, CHR 0xB5, CHR 0xA5] @ '')\<newline>'' @
    ''8. **If V's check passes**, V accepts P's proof\<newline>'' @
    ''\<newline>'' @
    ''### Example\<newline>'' @
    ''\<newline>'' @
    ''For the function '' @ [CHR 0xCF, CHR 0x95] @ ''(x'' @ [CHR 0xE2, CHR 0x82, CHR 0x81] @ '',x'' @ [CHR 0xE2, CHR 0x82, CHR 0x82] @ '',x'' @ [CHR 0xE2, CHR 0x82, CHR 0x83] @ '',x'' @ [CHR 0xE2, CHR 0x82, CHR 0x84] @ '') = (NOT x'' @ [CHR 0xE2, CHR 0x82, CHR 0x81] @ '' AND x'' @ [CHR 0xE2, CHR 0x82, CHR 0x82] @ '') AND (x'' @ [CHR 0xE2, CHR 0x82, CHR 0x83] @ '' OR x'' @ [CHR 0xE2, CHR 0x82, CHR 0x84] @ ''), the arithmetized version is:\<newline>'' @
    ''\<newline>'' @
    ''g(x'' @ [CHR 0xE2, CHR 0x82, CHR 0x81] @ '',x'' @ [CHR 0xE2, CHR 0x82, CHR 0x82] @ '',x'' @ [CHR 0xE2, CHR 0x82, CHR 0x83] @ '',x'' @ [CHR 0xE2, CHR 0x82, CHR 0x84] @ '') = (1-x'' @ [CHR 0xE2, CHR 0x82, CHR 0x81] @ '')'' @ [CHR 0xC2, CHR 0xB7] @ ''x'' @ [CHR 0xE2, CHR 0x82, CHR 0x82, CHR 0xC2, CHR 0xB7] @ ''((x'' @ [CHR 0xE2, CHR 0x82, CHR 0x83] @ ''+x'' @ [CHR 0xE2, CHR 0x82, CHR 0x84] @ '')-(x'' @ [CHR 0xE2, CHR 0x82, CHR 0x83, CHR 0xC2, CHR 0xB7] @ ''x'' @ [CHR 0xE2, CHR 0x82, CHR 0x84] @ ''))\<newline>'' @
    ''\<newline>'' @
    ''The Boolean-to-arithmetic conversion rules:\<newline>'' @
    ''\<newline>'' @
    ''| Boolean gate | Arithmetized version |\<newline>'' @
    ''|---|---|\<newline>'' @
    ''| A AND B | A*B |\<newline>'' @
    ''| A OR B | (A+B)-(A*B) |\<newline>'' @
    ''| NOT A | 1-A |\<newline>'' @
    ''\<newline>'' @
    ''Evaluating g at all 16 Boolean inputs gives g'' @ [CHR 0xE2, CHR 0x82, CHR 0x80] @ '' = 3 (the #SAT answer).\<newline>'' @
    ''\<newline>'' @
    ''The security of sum-check derives from the Schwartz'' @ [CHR 0xE2, CHR 0x80, CHR 0x93] @ ''Zippel lemma'' @ [CHR 0xE2, CHR 0x80, CHR 0x94] @ ''essentially random sampling for quality control. With sum-check, the cost for V drops from 2'' @ [CHR 0xE1, CHR 0xB5, CHR 0x9B] @ '' evaluations to just v steps plus a single evaluation of g.\<newline>'' @
    ''\<newline>'' @
    ''### Conclusions\<newline>'' @
    ''\<newline>'' @
    ''Python code implementing sum-check can be found in [this repo](https://github.com/0xsamgreen/sumcheck). The Fiat'' @ [CHR 0xE2, CHR 0x80, CHR 0x93] @ ''Shamir transform can make sum-check non-interactive, which is what SNARKs also use.''"

definition blogContent :: "(string \<times> string) list" where
  "blogContent =
    [(''cctp-rs'', content_cctp_rs),
     (''verifiable-extraction'', content_verifiable_extraction),
     (''homomorphic-signatures'', content_homomorphic_signatures),
     (''automated-query-pricing'', content_automated_query_pricing),
     (''indexer-allocation-2'', content_indexer_allocation_2),
     (''amm-overview'', content_amm_overview),
     (''psi-fhe'', content_psi_fhe),
     (''crypto-meta-analysis'', content_crypto_meta_analysis),
     (''indexer-allocation-1'', content_indexer_allocation_1),
     (''sum-check'', content_sum_check)]"

section \<open>The post page: component BlogPost\<close>

text \<open>
  The component returns one of two element trees: the fallback
  "Post not found", or the page that shows \<^verbatim>\<open>post\<close> (category, title,
  image) and hands \<^verbatim>\<open>content\<close> to the markdown renderer.
\<close>

datatype page = PostNotFound | PostPage BlogPost js_value

text \<open>
  The two module bindings the component reads. They are threaded through a
  render and returned, so that a write to either table would show.
\<close>

record modules =
  blogPosts_of :: "BlogPost list"
  blogContent_of :: js_object

text \<open>
  \<^verbatim>\<open>
  const { slug } = useParams<{ slug: string }>();
  const post = blogPosts.find((p) => p.id === slug);
  const content = slug ? blogContent[slug] : undefined;
  if (!post || !content) { return <Post not found>; }
  return <page of post and content>;
  \<close>
  The route parameter \<^verbatim>\<open>slug\<close> is a string or \<^verbatim>\<open>undefined\<close>
  (\<^term>\<open>None\<close>). \<^verbatim>\<open>Array.prototype.find\<close> returns the first
  element that satisfies the predicate, as \<^const>\<open>find\<close> does. The fallback
  is returned when \<^verbatim>\<open>post\<close> is \<^verbatim>\<open>undefined\<close> or
  \<^verbatim>\<open>content\<close> is falsy.
\<close>

definition BlogPost_in :: "modules \<Rightarrow> string option \<Rightarrow> page \<times> modules" where
  "BlogPost_in m slug =
    (let post = find (\<lambda>p. Some (id' p) = slug) (blogPosts_of m);
         content = (case slug of
                      None \<Rightarrow> Undefined
                    | Some s \<Rightarrow> if s = [] then Undefined else get_property (blogContent_of m) s)
     in (case post of
           None \<Rightarrow> PostNotFound
         | Some p \<Rightarrow> if truthy content then PostPage p content else PostNotFound,
         m))"

text \<open>The application as shipped: the two tables above.\<close>

definition shipped :: modules where
  "shipped = \<lparr>blogPosts_of = blogPosts, blogContent_of = blogContent\<rparr>"

definition BlogPost :: "string option \<Rightarrow> page" where
  "BlogPost slug = fst (BlogPost_in shipped slug)"

section \<open>The post page with its exceptions\<close>

text \<open>
  The render once more, with the two places where JavaScript can leave it
  other than by \<^verbatim>\<open>return\<close>. The search
  \<^verbatim>\<open>Array.prototype.find\<close> is a loop over the indices
  \<^verbatim>\<open>k = 0, ..., length - 1\<close> that stops at the first element the
  predicate accepts; it is written as that loop, with its termination proof.
  The resolved page reads \<^verbatim>\<open>post.category\<close>,
  \<^verbatim>\<open>post.title\<close> and \<^verbatim>\<open>post.image\<close>: a member read
  throws a \<^verbatim>\<open>TypeError\<close> when \<^verbatim>\<open>post\<close> is
  \<^verbatim>\<open>undefined\<close>.
\<close>

datatype error = TypeError

function find_from :: "('a \<Rightarrow> bool) \<Rightarrow> 'a list \<Rightarrow> nat \<Rightarrow> 'a option" where
  "find_from P xs k =
    (if k < length xs
     then (if P (xs ! k) then Some (xs ! k) else find_from P xs (Suc k))
     else None)"
  by pat_completeness auto
termination
  by (relation "measure (\<lambda>(P, xs, k). length xs - k)") auto

declare find_from.simps [simp del]

definition Array_find :: "('a \<Rightarrow> bool) \<Rightarrow> 'a list \<Rightarrow> 'a option" where
  "Array_find P xs = find_from P xs 0"

definition deref :: "'a option \<Rightarrow> error + 'a" where
  "deref obj = (case obj of None \<Rightarrow> Inl TypeError | Some x \<Rightarrow> Inr x)"

definition BlogPost_eval :: "modules \<Rightarrow> string option \<Rightarrow> error + page" where
  "BlogPost_eval m slug =
    (let post = Array_find (\<lambda>p. Some (id' p) = slug) (blogPosts_of m);
         content = (case slug of
                      None \<Rightarrow> Undefined
                    | Some s \<Rightarrow> if s = [] then Undefined else get_property (blogContent_of m) s)
     in if post = None \<or> \<not> truthy content then Inr PostNotFound
        else (case deref post of
                Inl e \<Rightarrow> Inl e
              | Inr p \<Rightarrow> Inr (PostPage p content)))"

section \<open>The listing: component BlogGrid\<close>

text \<open>
  \<^verbatim>\<open>
  const featured = blogPosts.find((p) => p.featured);
  const rest = blogPosts.filter((p) => !p.featured);
  \<close>
  \<^verbatim>\<open>p.featured\<close> is truthy only when the flag is present and true. The
  grid shows the featured card, when there is one, and then a card for each
  post of \<^verbatim>\<open>rest\<close>.
\<close>

definition is_featured :: "BlogPost \<Rightarrow> bool" where
  "is_featured p = (featured p = Some True)"

definition BlogGrid_of :: "BlogPost list \<Rightarrow> BlogPost option \<times> BlogPost list" where
  "BlogGrid_of posts =
    (let featured_post = find (\<lambda>p. is_featured p) posts;
         rest = filter (\<lambda>p. \<not> is_featured p) posts
     in (featured_post, rest))"

definition BlogGrid :: "BlogPost option \<times> BlogPost list" where
  "BlogGrid = BlogGrid_of blogPosts"

section \<open>Facts about lists and objects\<close>

lemma find_by_key:
  "inj_on f (set xs) \<Longrightarrow> p \<in> set xs \<Longrightarrow> find (\<lambda>q. Some (f q) = Some (f p)) xs = Some p"
proof (induction xs)
  case Nil
  then show ?case by simp
next
  case (Cons x xs)
  show ?case
  proof (cases "x = p")
    case True
    then show ?thesis by simp
  next
    case False
    with Cons.prems have mem: "p \<in> set xs" by simp
    with Cons.prems False have "f x \<noteq> f p" by (auto dest: inj_onD)
    moreover from Cons.prems have "inj_on f (set xs)" by (simp add: inj_on_def)
    ultimately show ?thesis using Cons.IH mem by simp
  qed
qed

lemma find_splits_list:
  "find P xs = Some f \<Longrightarrow> \<exists>pre suf. xs = pre @ f # suf \<and> (\<forall>q\<in>set pre. \<not> P q) \<and> P f"
proof (induction xs)
  case Nil
  then show ?case by simp
next
  case (Cons x xs)
  show ?case
  proof (cases "P x")
    case True
    with Cons.prems have "x = f" by simp
    with True have "x # xs = [] @ f # xs \<and> (\<forall>q\<in>set []. \<not> P q) \<and> P f" by simp
    then show ?thesis by blast
  next
    case False
    with Cons.prems have "find P xs = Some f" by simp
    from Cons.IH [OF this] obtain pre suf
      where "xs = pre @ f # suf" "\<forall>q\<in>set pre. \<not> P q" "P f" by blast
    with False have "x # xs = (x # pre) @ f # suf \<and> (\<forall>q\<in>set (x # pre). \<not> P q) \<and> P f"
      by simp
    then show ?thesis by blast
  qed
qed

lemma filter_not_id: "filter P xs = [] \<Longrightarrow> filter (\<lambda>x. \<not> P x) xs = xs"
  by (induction xs) (auto split: if_splits)

lemma find_filter_at_most_one:
  "length (filter P xs) \<le> 1 \<Longrightarrow>
    (case find P xs of
       None \<Rightarrow> (\<forall>x\<in>set xs. \<not> P x) \<and> filter (\<lambda>x. \<not> P x) xs = xs
     | Some f \<Rightarrow> P f \<and> (\<exists>pre suf. xs = pre @ f # suf \<and> (\<forall>q\<in>set (pre @ suf). \<not> P q)
                    \<and> filter (\<lambda>x. \<not> P x) xs = pre @ suf))"
proof (induction xs)
  case Nil
  then show ?case by simp
next
  case (Cons x xs)
  show ?case
  proof (cases "P x")
    case True
    with Cons.prems have e: "filter P xs = []" by simp
    then have n: "\<forall>q\<in>set xs. \<not> P q" by (simp add: filter_empty_conv)
    from e have "filter (\<lambda>x. \<not> P x) xs = xs" by (rule filter_not_id)
    with True n have "x # xs = [] @ x # xs \<and> (\<forall>q\<in>set ([] @ xs). \<not> P q)
        \<and> filter (\<lambda>x. \<not> P x) (x # xs) = [] @ xs" by simp
    then have "\<exists>pre suf. x # xs = pre @ x # suf \<and> (\<forall>q\<in>set (pre @ suf). \<not> P q)
        \<and> filter (\<lambda>x. \<not> P x) (x # xs) = pre @ suf" by blast
    with True show ?thesis by simp
  next
    case False
    with Cons.prems have le: "length (filter P xs) \<le> 1" by simp
    note IH = Cons.IH [OF le]
    show ?thesis
    proof (cases "find P xs")
      case None
      with IH False show ?thesis by simp
    next
      case (Some f)
      with IH obtain pre suf where f: "P f" and s: "xs = pre @ f # suf"
        "\<forall>q\<in>set (pre @ suf). \<not> P q" "filter (\<lambda>x. \<not> P x) xs = pre @ suf" by auto
      with False have "x # xs = (x # pre) @ f # suf \<and> (\<forall>q\<in>set ((x # pre) @ suf). \<not> P q)
        \<and> filter (\<lambda>x. \<not> P x) (x # xs) = (x # pre) @ suf" by simp
      then have "\<exists>pre suf. x # xs = pre @ f # suf \<and> (\<forall>q\<in>set (pre @ suf). \<not> P q)
        \<and> filter (\<lambda>x. \<not> P x) (x # xs) = pre @ suf" by blast
      with False Some f show ?thesis by simp
    qed
  qed
qed

lemma own_property_distinct:
  "distinct (map fst (own_entries obj)) \<Longrightarrow> (k, b) \<in> set (own_entries obj)
    \<Longrightarrow> own_property obj k = Some b"
  unfolding own_property_def by (rule map_of_is_SomeI) (simp_all add: rev_map [symmetric])

lemma find_from_drop: "find_from P xs k = find P (drop k xs)"
proof (induction P xs k rule: find_from.induct)
  case (1 P xs k)
  show ?case
  proof (cases "k < length xs")
    case True
    then have d: "drop k xs = xs ! k # drop (Suc k) xs" by (simp add: Cons_nth_drop_Suc)
    show ?thesis
    proof (cases "P (xs ! k)")
      case True
      with \<open>k < length xs\<close> d show ?thesis by (simp add: find_from.simps [of P xs k])
    next
      case False
      with \<open>k < length xs\<close> d 1 show ?thesis by (simp add: find_from.simps [of P xs k])
    qed
  next
    case False
    then show ?thesis by (simp add: find_from.simps [of P xs k])
  qed
qed

lemma Array_find_find: "Array_find P xs = find P xs"
  by (simp add: Array_find_def find_from_drop)

lemma own_property_absent: "k \<notin> own_keys obj \<Longrightarrow> own_property obj k = None"
  unfolding own_property_def own_keys_def by (simp add: map_of_eq_None_iff)

section \<open>Facts about the post page, for any two tables\<close>

lemma BlogPost_in_absent_id:
  assumes "s \<notin> set (map id' (blogPosts_of m))"
  shows "fst (BlogPost_in m (Some s)) = PostNotFound"
proof -
  from assms have "find (\<lambda>p. Some (id' p) = Some s) (blogPosts_of m) = None"
    by (auto simp: find_None_iff)
  then show ?thesis by (simp add: BlogPost_in_def Let_def)
qed

lemma BlogPost_in_undefined_slug: "fst (BlogPost_in m None) = PostNotFound"
proof -
  have "find (\<lambda>p. Some (id' p) = None) (blogPosts_of m) = None"
    by (simp add: find_None_iff)
  then show ?thesis by (simp add: BlogPost_in_def Let_def)
qed


text \<open>
  A catalog record and a non-empty own entry under a non-empty identifier give
  the resolved page.
\<close>

lemma BlogPost_in_found:
  assumes "find (\<lambda>p. Some (id' p) = Some s) (blogPosts_of m) = Some p"
    and "own_property (blogContent_of m) s = Some b" and "b \<noteq> []" and "s \<noteq> []"
  shows "fst (BlogPost_in m (Some s)) = PostPage p (Str b)"
  using assms by (simp add: BlogPost_in_def Let_def get_property_def)

section \<open>Facts about the shipped tables\<close>

lemma blogPosts_ids:
  "map id' blogPosts =
    [''cctp-rs'', ''verifiable-extraction'', ''homomorphic-signatures'',
     ''automated-query-pricing'', ''indexer-allocation-2'', ''amm-overview'', ''psi-fhe'',
     ''crypto-meta-analysis'', ''indexer-allocation-1'', ''sum-check'']"
  by (simp add: blogPosts_def)

lemma blogContent_keys:
  "map fst blogContent =
    [''cctp-rs'', ''verifiable-extraction'', ''homomorphic-signatures'',
     ''automated-query-pricing'', ''indexer-allocation-2'', ''amm-overview'', ''psi-fhe'',
     ''crypto-meta-analysis'', ''indexer-allocation-1'', ''sum-check'']"
  by (simp add: blogContent_def)

lemma blogPosts_id_inj: "inj_on id' (set blogPosts)"
proof -
  have "distinct (map id' blogPosts)" unfolding blogPosts_ids by simp
  then show ?thesis by (simp add: distinct_map)
qed

lemma blogPosts_ids_nonempty: "s \<in> set (map id' blogPosts) \<Longrightarrow> s \<noteq> []"
  unfolding blogPosts_ids by auto

lemma blogContent_own_entries: "own_entries blogContent = blogContent"
  by (simp add: own_entries_def blogContent_def)

lemma blogContent_own_keys: "own_keys blogContent = set (map fst blogContent)"
  by (simp add: own_keys_def blogContent_own_entries)

lemma blogContent_keys_distinct: "distinct (map fst (own_entries blogContent))"
  unfolding blogContent_own_entries blogContent_keys by simp

lemma content_cctp_rs_nonempty: "content_cctp_rs \<noteq> []"
  unfolding content_cctp_rs_def by simp

lemma content_verifiable_extraction_nonempty: "content_verifiable_extraction \<noteq> []"
  unfolding content_verifiable_extraction_def by simp

lemma content_homomorphic_signatures_nonempty: "content_homomorphic_signatures \<noteq> []"
  unfolding content_homomorphic_signatures_def by simp

lemma content_automated_query_pricing_nonempty: "content_automated_query_pricing \<noteq> []"
  unfolding content_automated_query_pricing_def by simp

lemma content_indexer_allocation_2_nonempty: "content_indexer_allocation_2 \<noteq> []"
  unfolding content_indexer_allocation_2_def by simp

lemma content_amm_overview_nonempty: "content_amm_overview \<noteq> []"
  unfolding content_amm_overview_def by simp

lemma content_psi_fhe_nonempty: "content_psi_fhe \<noteq> []"
  unfolding content_psi_fhe_def by simp

lemma content_crypto_meta_analysis_nonempty: "content_crypto_meta_analysis \<noteq> []"
  unfolding content_crypto_meta_analysis_def by simp

lemma content_indexer_allocation_1_nonempty: "content_indexer_allocation_1 \<noteq> []"
  unfolding content_indexer_allocation_1_def by simp

lemma content_sum_check_nonempty: "content_sum_check \<noteq> []"
  unfolding content_sum_check_def by simp

lemmas content_nonempty =
  content_cctp_rs_nonempty content_verifiable_extraction_nonempty
  content_homomorphic_signatures_nonempty content_automated_query_pricing_nonempty
  content_indexer_allocation_2_nonempty content_amm_overview_nonempty content_psi_fhe_nonempty
  content_crypto_meta_analysis_nonempty content_indexer_allocation_1_nonempty
  content_sum_check_nonempty

lemma blogContent_bodies_nonempty: "(k, b) \<in> set blogContent \<Longrightarrow> b \<noteq> []"
  using content_nonempty by (auto simp: blogContent_def)

lemma shipped_sel [simp]:
  "blogPosts_of shipped = blogPosts" "blogContent_of shipped = blogContent"
  by (simp_all add: shipped_def)

text \<open>
  Every identifier of the catalog resolves: the catalog search finds a record,
  the content table has a non-empty own entry, and the page shows both.
\<close>

lemma shipped_resolves:
  assumes "s \<in> set (map id' blogPosts)"
  shows "\<exists>p b. find (\<lambda>q. Some (id' q) = Some s) blogPosts = Some p \<and> p \<in> set blogPosts
           \<and> own_property blogContent s = Some b \<and> b \<noteq> [] \<and> s \<noteq> []
           \<and> BlogPost (Some s) = PostPage p (Str b)"
proof -
  from assms obtain p where p: "p \<in> set blogPosts" "id' p = s" by auto
  from assms have "s \<in> set (map fst blogContent)" by (simp only: blogPosts_ids blogContent_keys)
  then obtain b where b: "(s, b) \<in> set blogContent" by auto
  have f: "find (\<lambda>q. Some (id' q) = Some s) (blogPosts_of shipped) = Some p"
    using find_by_key [of id' blogPosts p] p blogPosts_id_inj by simp
  have o: "own_property (blogContent_of shipped) s = Some b"
    using own_property_distinct [OF blogContent_keys_distinct] b
    by (simp add: blogContent_own_entries)
  note ne = blogContent_bodies_nonempty [OF b] blogPosts_ids_nonempty [OF assms]
  have "fst (BlogPost_in shipped (Some s)) = PostPage p (Str b)"
    by (rule BlogPost_in_found [OF f o ne])
  then have "BlogPost (Some s) = PostPage p (Str b)" by (simp add: BlogPost_def)
  with f o ne p show ?thesis by simp
qed

text \<open>The shipped catalog marks its first record, and no other, as featured.\<close>

lemma BlogGrid_shipped:
  "length (filter is_featured blogPosts) = 1 \<and> BlogGrid = (Some (hd blogPosts), tl blogPosts)"
  by (simp add: BlogGrid_def BlogGrid_of_def Let_def is_featured_def blogPosts_def)

lemma BlogPost_absent_id:
  "s \<notin> set (map id' blogPosts) \<Longrightarrow> BlogPost (Some s) = PostNotFound"
  using BlogPost_in_absent_id [of s shipped] by (simp add: BlogPost_def)

section \<open>The resolver\<close>

text \<open>
  C1: for every identifier that is the id of some catalog record and a key of
  the content table, the post page is the resolved one: its metadata is that
  catalog record (the only record with this id) and its text body is that
  content table entry (the only entry under this key).
\<close>

theorem resolver_joins_catalog_and_content:
  assumes "slug \<in> set (map id' blogPosts)" and "slug \<in> own_keys blogContent"
  shows "\<exists>p b. BlogPost (Some slug) = PostPage p (Str b)
           \<and> p \<in> set blogPosts \<and> id' p = slug \<and> (\<forall>q\<in>set blogPosts. id' q = slug \<longrightarrow> q = p)
           \<and> (slug, b) \<in> set blogContent \<and> (\<forall>b'. (slug, b') \<in> set blogContent \<longrightarrow> b' = b)"
proof -
  from shipped_resolves [OF assms(1)] obtain p b
    where r: "find (\<lambda>q. Some (id' q) = Some slug) blogPosts = Some p" "p \<in> set blogPosts"
      "own_property blogContent slug = Some b" "BlogPost (Some slug) = PostPage p (Str b)"
    by blast
  from find_splits_list [OF r(1)] have i: "id' p = slug" by auto
  have u: "\<forall>q\<in>set blogPosts. id' q = slug \<longrightarrow> q = p"
  proof (intro ballI impI)
    fix q assume "q \<in> set blogPosts" "id' q = slug"
    with r(2) i blogPosts_id_inj show "q = p" by (auto dest: inj_onD)
  qed
  from assms(2) obtain c where c: "(slug, c) \<in> set blogContent"
    by (auto simp: blogContent_own_keys)
  have v: "\<forall>b'. (slug, b') \<in> set blogContent \<longrightarrow> b' = b"
  proof (intro allI impI)
    fix b' assume "(slug, b') \<in> set blogContent"
    then have "(slug, b') \<in> set (own_entries blogContent)"
      by (simp add: blogContent_own_entries)
    from own_property_distinct [OF blogContent_keys_distinct this] r(3)
    show "b' = b" by simp
  qed
  with c have "(slug, b) \<in> set blogContent" by auto
  with r(2,4) i u v show ?thesis by blast
qed

theorem resolver_joins_catalog_and_content_witness:
  "''psi-fhe'' \<in> set (map id' blogPosts) \<and> ''psi-fhe'' \<in> own_keys blogContent
   \<and> (\<exists>p. BlogPost (Some ''psi-fhe'') = PostPage p (Str content_psi_fhe)
          \<and> p \<in> set blogPosts \<and> id' p = ''psi-fhe'')"
proof -
  have h1: "''psi-fhe'' \<in> set (map id' blogPosts)" by (simp add: blogPosts_ids)
  have h2: "''psi-fhe'' \<in> own_keys blogContent" by (simp add: blogContent_own_keys blogContent_keys)
  from resolver_joins_catalog_and_content [OF h1 h2] obtain p b
    where r: "BlogPost (Some ''psi-fhe'') = PostPage p (Str b)" "p \<in> set blogPosts"
      "id' p = ''psi-fhe''" "(''psi-fhe'', b) \<in> set blogContent" by blast
  from r(4) have "b = content_psi_fhe" by (simp add: blogContent_def)
  with r h1 h2 show ?thesis by blast
qed




section \<open>The listing partition\<close>

text \<open>
  C3, as the code has it: for every catalog in which more than one record is
  marked featured, the first featured record (in insertion order) is the
  featured one, and the remainder is exactly the records that are not marked
  featured, in insertion order. Every other featured record is in neither
  part: the filter of the remainder drops all featured records.
\<close>

theorem BlogGrid_many_featured:
  assumes "1 < length (filter is_featured posts)"
  shows "\<exists>f pre suf. posts = pre @ f # suf \<and> (\<forall>q\<in>set pre. \<not> is_featured q) \<and> is_featured f
           \<and> fst (BlogGrid_of posts) = Some f
           \<and> snd (BlogGrid_of posts) = filter (\<lambda>p. \<not> is_featured p) (pre @ suf)
           \<and> (\<exists>g\<in>set suf. is_featured g)
           \<and> (\<forall>g\<in>set posts. is_featured g \<longrightarrow> g \<notin> set (snd (BlogGrid_of posts)))"
proof -
  from assms have "filter is_featured posts \<noteq> []" by auto
  then have "find is_featured posts \<noteq> None" by (auto simp: find_None_iff filter_empty_conv)
  then obtain f where f: "find is_featured posts = Some f" by auto
  from find_splits_list [OF f] obtain pre suf
    where s: "posts = pre @ f # suf" "\<forall>q\<in>set pre. \<not> is_featured q" "is_featured f" by blast
  from s have "filter is_featured pre = []" by (simp add: filter_empty_conv)
  with assms s have "filter is_featured suf \<noteq> []" by auto
  then have g: "\<exists>g\<in>set suf. is_featured g" by (simp add: filter_empty_conv)
  have r: "snd (BlogGrid_of posts) = filter (\<lambda>p. \<not> is_featured p) (pre @ suf)"
    using s by (simp add: BlogGrid_of_def Let_def)
  have n: "\<forall>g\<in>set posts. is_featured g \<longrightarrow> g \<notin> set (snd (BlogGrid_of posts))"
    by (simp add: BlogGrid_of_def Let_def)
  have "fst (BlogGrid_of posts) = Some f" using f by (simp add: BlogGrid_of_def Let_def)
  with s g r n show ?thesis by blast
qed

theorem BlogGrid_many_featured_witness:
  "1 < length (filter is_featured
      [\<lparr>id' = ''x'', title = ''X'', excerpt = [], category = [], image' = [], url = [], featured = Some True\<rparr>,
       \<lparr>id' = ''y'', title = ''Y'', excerpt = [], category = [], image' = [], url = [], featured = Some True\<rparr>,
       \<lparr>id' = ''z'', title = ''Z'', excerpt = [], category = [], image' = [], url = [], featured = None\<rparr>])
   \<and> BlogGrid_of
      [\<lparr>id' = ''x'', title = ''X'', excerpt = [], category = [], image' = [], url = [], featured = Some True\<rparr>,
       \<lparr>id' = ''y'', title = ''Y'', excerpt = [], category = [], image' = [], url = [], featured = Some True\<rparr>,
       \<lparr>id' = ''z'', title = ''Z'', excerpt = [], category = [], image' = [], url = [], featured = None\<rparr>]
     = (Some \<lparr>id' = ''x'', title = ''X'', excerpt = [], category = [], image' = [], url = [], featured = Some True\<rparr>,
        [\<lparr>id' = ''z'', title = ''Z'', excerpt = [], category = [], image' = [], url = [], featured = None\<rparr>])"
proof -
  let ?X = "\<lparr>id' = ''x'', title = ''X'', excerpt = [], category = [], image' = [], url = [], featured = Some True\<rparr>"
  let ?Y = "\<lparr>id' = ''y'', title = ''Y'', excerpt = [], category = [], image' = [], url = [], featured = Some True\<rparr>"
  let ?Z = "\<lparr>id' = ''z'', title = ''Z'', excerpt = [], category = [], image' = [], url = [], featured = None\<rparr>"
  have h: "1 < length (filter is_featured [?X, ?Y, ?Z])" by (simp add: is_featured_def)
  from BlogGrid_many_featured [OF h] obtain f pre suf
    where s: "[?X, ?Y, ?Z] = pre @ f # suf" "\<forall>q\<in>set pre. \<not> is_featured q" "is_featured f"
      "fst (BlogGrid_of [?X, ?Y, ?Z]) = Some f"
      "snd (BlogGrid_of [?X, ?Y, ?Z]) = filter (\<lambda>p. \<not> is_featured p) (pre @ suf)" by blast
  have x: "is_featured ?X" by (simp add: is_featured_def)
  have "pre = []"
  proof (cases pre)
    case Nil
    then show ?thesis .
  next
    case (Cons a as)
    with s(1) have "a = ?X" by simp
    with s(2) Cons x show ?thesis by simp
  qed
  with s(1) have fs: "f = ?X" "suf = [?Y, ?Z]" by simp_all
  have "filter (\<lambda>p. \<not> is_featured p) [?Y, ?Z] = [?Z]" by (simp add: is_featured_def)
  with s(4,5) fs \<open>pre = []\<close> have "BlogGrid_of [?X, ?Y, ?Z] = (Some ?X, [?Z])"
    by (simp add: prod_eq_iff)
  with h show ?thesis by simp
qed

text \<open>
  The claim as the specification words it fails: with two featured records
  A and B, the second one does not fall into the remainder, which is empty.
\<close>

theorem BlogGrid_many_featured_counterexample:
  "1 < length (filter is_featured
      [\<lparr>id' = ''a'', title = ''A'', excerpt = [], category = [], image' = [], url = [], featured = Some True\<rparr>,
       \<lparr>id' = ''b'', title = ''B'', excerpt = [], category = [], image' = [], url = [], featured = Some True\<rparr>])
   \<and> BlogGrid_of
      [\<lparr>id' = ''a'', title = ''A'', excerpt = [], category = [], image' = [], url = [], featured = Some True\<rparr>,
       \<lparr>id' = ''b'', title = ''B'', excerpt = [], category = [], image' = [], url = [], featured = Some True\<rparr>]
     = (Some \<lparr>id' = ''a'', title = ''A'', excerpt = [], category = [], image' = [], url = [], featured = Some True\<rparr>, [])
   \<and> \<lparr>id' = ''b'', title = ''B'', excerpt = [], category = [], image' = [], url = [], featured = Some True\<rparr>
       \<notin> set (snd (BlogGrid_of
      [\<lparr>id' = ''a'', title = ''A'', excerpt = [], category = [], image' = [], url = [], featured = Some True\<rparr>,
       \<lparr>id' = ''b'', title = ''B'', excerpt = [], category = [], image' = [], url = [], featured = Some True\<rparr>]))"
  by (simp add: BlogGrid_of_def Let_def is_featured_def)

text \<open>
  C4: for every catalog with at most one featured record, the listing
  partition returns that record as the featured one (or no featured record
  when there is none) and all other records, in their insertion order, as the
  remainder. In particular, records A, B, C with the flags false, true, false
  partition to the featured record B and the remainder A, C.
\<close>

theorem BlogGrid_at_most_one_featured:
  assumes "length (filter is_featured posts) \<le> 1"
  shows "(case BlogGrid_of posts of
            (None, rest) \<Rightarrow> (\<forall>p\<in>set posts. \<not> is_featured p) \<and> rest = posts
          | (Some f, rest) \<Rightarrow>
              is_featured f \<and>
              (\<exists>pre suf. posts = pre @ f # suf \<and> (\<forall>q\<in>set (pre @ suf). \<not> is_featured q)
                 \<and> rest = pre @ suf))
         \<and> (\<forall>A B C. featured A = Some False \<and> featured B = Some True \<and> featured C = Some False
               \<longrightarrow> BlogGrid_of [A, B, C] = (Some B, [A, C]))"
proof
  from find_filter_at_most_one [OF assms]
  show "case BlogGrid_of posts of
            (None, rest) \<Rightarrow> (\<forall>p\<in>set posts. \<not> is_featured p) \<and> rest = posts
          | (Some f, rest) \<Rightarrow>
              is_featured f \<and>
              (\<exists>pre suf. posts = pre @ f # suf \<and> (\<forall>q\<in>set (pre @ suf). \<not> is_featured q)
                 \<and> rest = pre @ suf)"
    by (simp add: BlogGrid_of_def Let_def split: option.splits)
next
  show "\<forall>A B C. featured A = Some False \<and> featured B = Some True \<and> featured C = Some False
               \<longrightarrow> BlogGrid_of [A, B, C] = (Some B, [A, C])"
    by (simp add: BlogGrid_of_def Let_def is_featured_def)
qed

theorem BlogGrid_at_most_one_featured_witness:
  "length (filter is_featured
      [\<lparr>id' = ''a'', title = ''A'', excerpt = [], category = [], image' = [], url = [], featured = Some False\<rparr>,
       \<lparr>id' = ''b'', title = ''B'', excerpt = [], category = [], image' = [], url = [], featured = Some True\<rparr>,
       \<lparr>id' = ''c'', title = ''C'', excerpt = [], category = [], image' = [], url = [], featured = Some False\<rparr>]) \<le> 1
   \<and> BlogGrid_of
      [\<lparr>id' = ''a'', title = ''A'', excerpt = [], category = [], image' = [], url = [], featured = Some False\<rparr>,
       \<lparr>id' = ''b'', title = ''B'', excerpt = [], category = [], image' = [], url = [], featured = Some True\<rparr>,
       \<lparr>id' = ''c'', title = ''C'', excerpt = [], category = [], image' = [], url = [], featured = Some False\<rparr>]
     = (Some \<lparr>id' = ''b'', title = ''B'', excerpt = [], category = [], image' = [], url = [], featured = Some True\<rparr>,
        [\<lparr>id' = ''a'', title = ''A'', excerpt = [], category = [], image' = [], url = [], featured = Some False\<rparr>,
         \<lparr>id' = ''c'', title = ''C'', excerpt = [], category = [], image' = [], url = [], featured = Some False\<rparr>])"
proof -
  let ?A = "\<lparr>id' = ''a'', title = ''A'', excerpt = [], category = [], image' = [], url = [], featured = Some False\<rparr>"
  let ?B = "\<lparr>id' = ''b'', title = ''B'', excerpt = [], category = [], image' = [], url = [], featured = Some True\<rparr>"
  let ?C = "\<lparr>id' = ''c'', title = ''C'', excerpt = [], category = [], image' = [], url = [], featured = Some False\<rparr>"
  have h: "length (filter is_featured [?A, ?B, ?C]) \<le> 1" by (simp add: is_featured_def)
  from BlogGrid_at_most_one_featured [OF h]
  have "BlogGrid_of [?A, ?B, ?C] = (Some ?B, [?A, ?C])" by simp
  with h show ?thesis by simp
qed

section \<open>The shipped post "sum-check"\<close>

text \<open>
  C5: the identifier "sum-check" resolves to a page whose metadata has the
  title "Introduction to the Sum-Check Protocol" and whose text body begins
  with the characters "### TL;DR".
\<close>

theorem sum_check_resolves:
  "\<exists>p b. BlogPost (Some ''sum-check'') = PostPage p (Str b)
     \<and> title p = ''Introduction to the Sum-Check Protocol''
     \<and> take (length ''### TL;DR'') b = ''### TL;DR''"
proof -
  have m: "''sum-check'' \<in> set (map id' blogPosts)" by (simp add: blogPosts_ids)
  from shipped_resolves [OF m] obtain p b
    where r: "find (\<lambda>q. Some (id' q) = Some ''sum-check'') blogPosts = Some p"
      "own_property blogContent ''sum-check'' = Some b"
      "BlogPost (Some ''sum-check'') = PostPage p (Str b)" by blast
  from r(1) have t: "title p = ''Introduction to the Sum-Check Protocol''"
    by (auto simp: blogPosts_def)
  from r(2) have "b = content_sum_check"
    by (simp add: own_property_def own_entries_def blogContent_def)
  then have "take (length ''### TL;DR'') b = ''### TL;DR''"
    unfolding content_sum_check_def by simp
  with r(3) t show ?thesis by blast
qed

section \<open>The resolver raises nothing\<close>

lemma BlogPost_eval_returns: "BlogPost_eval m slug = Inr (fst (BlogPost_in m slug))"
proof (cases "find (\<lambda>p. Some (id' p) = slug) (blogPosts_of m)")
  case None
  then show ?thesis by (simp add: BlogPost_eval_def BlogPost_in_def Array_find_find Let_def)
next
  case (Some p)
  then show ?thesis
    by (simp add: BlogPost_eval_def BlogPost_in_def Array_find_find Let_def deref_def)
qed

lemma BlogPost_range:
  "BlogPost slug = PostNotFound
   \<or> (\<exists>p b. BlogPost slug = PostPage p (Str b) \<and> p \<in> set blogPosts \<and> b \<noteq> [])"
proof (cases slug)
  case None
  then show ?thesis using BlogPost_in_undefined_slug [of shipped] by (simp add: BlogPost_def)
next
  case (Some s)
  show ?thesis
  proof (cases "s \<in> set (map id' blogPosts)")
    case True
    from shipped_resolves [OF True] obtain p b
      where r: "p \<in> set blogPosts" "b \<noteq> []" "BlogPost (Some s) = PostPage p (Str b)" by blast
    with Some show ?thesis by blast
  next
    case False
    with Some show ?thesis by (simp add: BlogPost_absent_id)
  qed
qed

text \<open>
  C6: the resolver is total and raises nothing. The search of the catalog is
  a loop that terminates, and for every route parameter (any string, the
  empty one, or none at all) the render returns: no
  \<^verbatim>\<open>TypeError\<close> is reachable, for any two tables, since the member
  reads of \<^verbatim>\<open>post\<close> come after the test that it is defined. On the
  shipped tables what it returns is the fallback \<^const>\<open>PostNotFound\<close>
  or the page of a catalog record with a non-empty text body.
\<close>

theorem resolver_never_throws:
  "(\<forall>e. BlogPost_eval m slug \<noteq> Inl e)
   \<and> BlogPost_eval m slug = Inr (fst (BlogPost_in m slug))
   \<and> (BlogPost_eval shipped slug = Inr PostNotFound
      \<or> (\<exists>p b. BlogPost_eval shipped slug = Inr (PostPage p (Str b))
                \<and> p \<in> set blogPosts \<and> b \<noteq> []))"
proof -
  have 1: "BlogPost_eval m slug = Inr (fst (BlogPost_in m slug))"
    by (rule BlogPost_eval_returns)
  then have 2: "\<forall>e. BlogPost_eval m slug \<noteq> Inl e" by simp
  have "BlogPost_eval shipped slug = Inr (BlogPost slug)"
    by (simp add: BlogPost_eval_returns BlogPost_def)
  with BlogPost_range [of slug]
  have 3: "BlogPost_eval shipped slug = Inr PostNotFound
      \<or> (\<exists>p b. BlogPost_eval shipped slug = Inr (PostPage p (Str b))
                \<and> p \<in> set blogPosts \<and> b \<noteq> [])"
    by auto
  from 1 2 3 show ?thesis by blast
qed

section \<open>Invariants of the shipped data\<close>

text \<open>
  C8: the identifiers of the records of the shipped catalog
  \<^verbatim>\<open>blogPosts\<close> are pairwise distinct: no two records share an id.
\<close>

theorem blogPosts_ids_distinct: "distinct (map id' blogPosts)"
  unfolding blogPosts_ids by simp

text \<open>
  C9: in the shipped data the set of own keys of the content table
  \<^verbatim>\<open>blogContent\<close> equals the set of identifiers of the catalog
  \<^verbatim>\<open>blogPosts\<close>: every key names a catalog record and every catalog
  record has an entry.
\<close>

theorem content_keys_are_catalog_ids: "own_keys blogContent = set (map id' blogPosts)"
  by (simp only: blogContent_own_keys blogPosts_ids blogContent_keys)

section \<open>Inherited members of the content table\<close>

text \<open>
  C10: for every identifier that is not the id of a catalog record the
  resolver returns \<^const>\<open>PostNotFound\<close>, also when the read of the content
  table under that identifier yields an inherited member, as it does for
  "toString" of \<^verbatim>\<open>Object.prototype\<close>: the page is resolved only when
  the search of the catalog succeeds as well. This holds for any two tables.
\<close>

theorem inherited_member_not_resolved:
  "(s \<notin> set (map id' (blogPosts_of m)) \<longrightarrow> fst (BlogPost_in m (Some s)) = PostNotFound)
   \<and> (fst (BlogPost_in m slug) = PostPage p c \<longrightarrow>
        find (\<lambda>q. Some (id' q) = slug) (blogPosts_of m) = Some p)
   \<and> get_property blogContent ''toString'' = Inherited ''toString''
   \<and> truthy (get_property blogContent ''toString'')
   \<and> BlogPost (Some ''toString'') = PostNotFound"
proof -
  have 1: "s \<notin> set (map id' (blogPosts_of m)) \<longrightarrow> fst (BlogPost_in m (Some s)) = PostNotFound"
    by (simp add: BlogPost_in_absent_id)
  have 2: "fst (BlogPost_in m slug) = PostPage p c \<longrightarrow>
        find (\<lambda>q. Some (id' q) = slug) (blogPosts_of m) = Some p"
    by (auto simp: BlogPost_in_def Let_def split: option.splits if_splits)
  have a: "''toString'' \<notin> own_keys blogContent" by (simp add: blogContent_own_keys blogContent_keys)
  have 3: "get_property blogContent ''toString'' = Inherited ''toString''"
    using own_property_absent [OF a] by (simp add: get_property_def Object_prototype_keys_def)
  have "''toString'' \<notin> set (map id' blogPosts)" by (simp add: blogPosts_ids)
  then have 4: "BlogPost (Some ''toString'') = PostNotFound" by (rule BlogPost_absent_id)
  from 1 2 3 4 show ?thesis by simp
qed

theorem inherited_member_not_resolved_witness:
  "''valueOf'' \<notin> set (map id' (blogPosts_of shipped))
   \<and> get_property (blogContent_of shipped) ''valueOf'' = Inherited ''valueOf''
   \<and> fst (BlogPost_in shipped (Some ''valueOf'')) = PostNotFound"
proof -
  have h: "''valueOf'' \<notin> set (map id' (blogPosts_of shipped))" by (simp add: blogPosts_ids)
  have a: "''valueOf'' \<notin> own_keys blogContent" by (simp add: blogContent_own_keys blogContent_keys)
  have g: "get_property (blogContent_of shipped) ''valueOf'' = Inherited ''valueOf''"
    using own_property_absent [OF a] by (simp add: get_property_def Object_prototype_keys_def)
  from inherited_member_not_resolved [of "''valueOf''" shipped] h g show ?thesis by simp
qed

end
